theory Spec2Isabelle
  imports Complex_Main "HOL-Library.Sublist" "HOL-Library.Monad_Syntax"
begin

section \<open>Strings, identifiers and time\<close>

text \<open>
  Go strings are byte sequences; \<open>string\<close> (a list of 8-bit characters) holds the
  UTF-8 bytes. A \<open>uuid.UUID\<close> is modelled by a natural number, \<open>uuid.Nil\<close> by 0.
  A \<open>time.Time\<close> is the number of nanoseconds since the Unix epoch.
\<close>

type_synonym UUID = nat
type_synonym Time = int

definition uuid_Nil :: UUID where
  "uuid_Nil = 0"

text \<open>
  \<open>strings.ToLower\<close>: upper-case ASCII letters are mapped to lower case, every other
  byte is kept. (Go also maps upper-case letters beyond ASCII; the bytes of such runes are
  left as they are here, so the model is exact on ASCII text.)
\<close>

definition lower_byte :: "char \<Rightarrow> char" where
  "lower_byte c =
     (case map_of (zip ''ABCDEFGHIJKLMNOPQRSTUVWXYZ'' ''abcdefghijklmnopqrstuvwxyz'') c of
        Some l \<Rightarrow> l
      | None \<Rightarrow> c)"

definition ToLower :: "string \<Rightarrow> string" where
  "ToLower s = map lower_byte s"

text \<open>\<open>strings.Contains s substr\<close>: \<open>substr\<close> occurs in \<open>s\<close> as a contiguous block.\<close>

fun Contains :: "string \<Rightarrow> string \<Rightarrow> bool" where
  "Contains [] substr = (substr = [])"
| "Contains (c # cs) substr = (prefix substr (c # cs) \<or> Contains cs substr)"

text \<open>Go compares strings byte by byte, bytes as unsigned numbers.\<close>

fun str_less :: "string \<Rightarrow> string \<Rightarrow> bool" where
  "str_less [] [] = False"
| "str_less [] (b # bs) = True"
| "str_less (a # as) [] = False"
| "str_less (a # as) (b # bs) =
     ((of_char a :: nat) < of_char b \<or> (a = b \<and> str_less as bs))"

definition str_le :: "string \<Rightarrow> string \<Rightarrow> bool" where
  "str_le a b = (a = b \<or> str_less a b)"

text \<open>
  A \<open>time.Location\<close> gives the offset from UTC, in seconds, that is in force at a Unix
  second. \<open>time.LoadLocation\<close> reads the time zone database of the host; it is a
  parameter of the functions that call it (\<open>None\<close> is the error return).
\<close>

type_synonym Location = "int \<Rightarrow> int"

definition UTC :: Location where
  "UTC = (\<lambda>_. 0)"

text \<open>The wall clock of an instant in a location, as seconds since the epoch.\<close>

definition local_seconds :: "Location \<Rightarrow> Time \<Rightarrow> int" where
  "local_seconds loc t = (let u = t div 1000000000 in u + loc u)"

text \<open>\<open>Time.Weekday\<close>: Sunday is 0; 1 January 1970 was a Thursday.\<close>

definition Weekday :: "Location \<Rightarrow> Time \<Rightarrow> int" where
  "Weekday loc t = (local_seconds loc t div 86400 + 4) mod 7"

definition two_digits :: "int \<Rightarrow> string" where
  "two_digits n = [''0123456789'' ! nat (n div 10), ''0123456789'' ! nat (n mod 10)]"

text \<open>\<open>Time.Format("15:04")\<close>: hour and minute of the wall clock, two digits each.\<close>

definition Format_HHmm :: "Location \<Rightarrow> Time \<Rightarrow> string" where
  "Format_HHmm loc t =
     (let s = local_seconds loc t mod 86400
      in two_digits (s div 3600) @ '':'' @ two_digits (s mod 3600 div 60))"

section \<open>Rules (models/rule.go)\<close>

type_synonym TriggerType = string
type_synonym ResponseType = string

definition TriggerKeyword :: TriggerType where
  "TriggerKeyword = ''keyword''"

definition TriggerTimeWindow :: TriggerType where
  "TriggerTimeWindow = ''time_window''"

definition TriggerFallback :: TriggerType where
  "TriggerFallback = ''fallback''"

definition TriggerIntent :: TriggerType where
  "TriggerIntent = ''intent''"

definition ResponseText :: ResponseType where
  "ResponseText = ''text''"

definition ResponseTemplate :: ResponseType where
  "ResponseTemplate = ''template''"

definition ResponseHandoff :: ResponseType where
  "ResponseHandoff = ''handoff''"

record TriggerConfig =
  Keywords :: "string list"
  MatchType :: string
  StartTime :: string
  EndTime :: string
  Timezone :: string
  Days :: "int list"

record ResponseConfig =
  Text :: string
  TemplateID :: string
  Message :: string
  AssignTo :: "UUID option"
  Tags :: "string list"
  rc_Priority :: string

text \<open>\<open>BaseModel\<close>: the fields every stored model shares.\<close>

record BaseModel =
  ID :: UUID
  CreatedAt :: Time
  UpdatedAt :: Time
  DeletedAt :: "Time option"

record Rule = BaseModel +
  rule_WorkspaceID :: UUID
  rule_Name :: string
  TriggerType :: TriggerType
  TriggerConfig :: TriggerConfig
  ResponseType :: ResponseType
  ResponseConfig :: ResponseConfig
  Priority :: int
  IsActive :: bool
  HitCount :: int
  LastTriggeredAt :: "Time option"

definition IsKeywordTrigger :: "Rule \<Rightarrow> bool" where
  "IsKeywordTrigger r = (TriggerType r = TriggerKeyword)"

definition IsTimeWindowTrigger :: "Rule \<Rightarrow> bool" where
  "IsTimeWindowTrigger r = (TriggerType r = TriggerTimeWindow)"

definition IsFallbackTrigger :: "Rule \<Rightarrow> bool" where
  "IsFallbackTrigger r = (TriggerType r = TriggerFallback)"

definition IsHandoffResponse :: "Rule \<Rightarrow> bool" where
  "IsHandoffResponse r = (ResponseType r = ResponseHandoff)"

text \<open>The loop of \<open>MatchesKeyword\<close> over the configured keywords.\<close>

fun keyword_loop :: "string \<Rightarrow> string \<Rightarrow> string list \<Rightarrow> bool" where
  "keyword_loop matchType contentLower [] = False"
| "keyword_loop matchType contentLower (keyword # rest) =
     (let keywordLower = ToLower keyword in
      if matchType = ''exact'' \<and> contentLower = keywordLower then True
      else if matchType = ''contains'' \<and> Contains contentLower keywordLower then True
      else keyword_loop matchType contentLower rest)"

definition MatchesKeyword :: "Rule \<Rightarrow> string \<Rightarrow> bool" where
  "MatchesKeyword r content =
     (if \<not> IsKeywordTrigger r then False
      else
        let contentLower = ToLower content;
            matchType = (if MatchType (TriggerConfig r) = '''' then ''contains''
                         else MatchType (TriggerConfig r))
        in keyword_loop matchType contentLower (Keywords (TriggerConfig r)))"

text \<open>The loop of \<open>MatchesTimeWindow\<close> over the configured days.\<close>

fun day_loop :: "int \<Rightarrow> int list \<Rightarrow> bool" where
  "day_loop weekday [] = False"
| "day_loop weekday (day # rest) = (if day = weekday then True else day_loop weekday rest)"

definition MatchesTimeWindow :: "(string \<Rightarrow> Location option) \<Rightarrow> Rule \<Rightarrow> Time \<Rightarrow> bool" where
  "MatchesTimeWindow LoadLocation r now =
     (if \<not> IsTimeWindowTrigger r then False
      else
        let tc = TriggerConfig r;
            loc = (case LoadLocation (Timezone tc) of None \<Rightarrow> UTC | Some l \<Rightarrow> l)
        in
          if Days tc \<noteq> [] \<and> \<not> day_loop (Weekday loc now) (Days tc) then False
          else
            let currentTime = Format_HHmm loc now in
            if str_less (EndTime tc) (StartTime tc)
            then str_le (StartTime tc) currentTime \<or> str_le currentTime (EndTime tc)
            else str_le (StartTime tc) currentTime \<and> str_le currentTime (EndTime tc))"

section \<open>Rule engine (bot/rule_engine.go)\<close>

record MatchResult =
  Matched :: bool
  mr_Rule :: "Rule option"
  mr_MatchedKeyword :: string
  mr_Confidence :: real

text \<open>The zero value \<open>MatchResult{Matched: false}\<close>.\<close>

definition no_match :: MatchResult where
  "no_match = \<lparr>Matched = False, mr_Rule = None, mr_MatchedKeyword = '''', mr_Confidence = 0\<rparr>"

text \<open>The inner loop of \<open>matchKeyword\<close>: the keyword is passed to \<open>MatchesKeyword\<close>
  in the place of the content, as the source does.\<close>

fun find_keyword :: "Rule \<Rightarrow> string list \<Rightarrow> bool \<times> string" where
  "find_keyword rule [] = (True, '''')"
| "find_keyword rule (keyword # rest) =
     (if MatchesKeyword rule keyword then (True, keyword) else find_keyword rule rest)"

definition matchKeyword :: "Rule \<Rightarrow> string \<Rightarrow> bool \<times> string" where
  "matchKeyword rule content =
     (if MatchesKeyword rule content
      then find_keyword rule (Keywords (TriggerConfig rule))
      else (False, ''''))"

text \<open>The first loop of \<open>Match\<close>; \<open>None\<close> when it runs to its end.\<close>

fun first_pass ::
  "(string \<Rightarrow> Location option) \<Rightarrow> Time \<Rightarrow> string \<Rightarrow> Rule list \<Rightarrow> MatchResult option" where
  "first_pass LoadLocation now content [] = None"
| "first_pass LoadLocation now content (rule # rest) =
     (if \<not> IsActive rule then first_pass LoadLocation now content rest
      else if TriggerType rule = TriggerKeyword then
        (case matchKeyword rule content of
           (True, keyword) \<Rightarrow>
             Some \<lparr>Matched = True, mr_Rule = Some rule, mr_MatchedKeyword = keyword,
                   mr_Confidence = 1\<rparr>
         | (False, _) \<Rightarrow> first_pass LoadLocation now content rest)
      else if TriggerType rule = TriggerTimeWindow then
        (if MatchesTimeWindow LoadLocation rule now
         then Some \<lparr>Matched = True, mr_Rule = Some rule, mr_MatchedKeyword = '''',
                    mr_Confidence = 1\<rparr>
         else first_pass LoadLocation now content rest)
      else first_pass LoadLocation now content rest)"

text \<open>The second loop of \<open>Match\<close>: the first active fallback rule.\<close>

fun fallback_pass :: "Rule list \<Rightarrow> MatchResult option" where
  "fallback_pass [] = None"
| "fallback_pass (rule # rest) =
     (if TriggerType rule = TriggerFallback \<and> IsActive rule
      then Some \<lparr>Matched = True, mr_Rule = Some rule, mr_MatchedKeyword = '''',
                 mr_Confidence = 1 / 2\<rparr>
      else fallback_pass rest)"

text \<open>\<open>Match\<close>; the instant read by \<open>time.Now()\<close> is the parameter \<open>now\<close>.\<close>

definition Match ::
  "(string \<Rightarrow> Location option) \<Rightarrow> Time \<Rightarrow> Rule list \<Rightarrow> string \<Rightarrow> MatchResult" where
  "Match LoadLocation now rules content =
     (case first_pass LoadLocation now content rules of
        Some res \<Rightarrow> res
      | None \<Rightarrow>
         (case fallback_pass rules of
            Some res \<Rightarrow> res
          | None \<Rightarrow> no_match))"

section \<open>Errors\<close>

text \<open>The error values the modelled code returns; the message text is not modelled.\<close>

datatype error =
    ErrMissingSenderID
  | ErrUnmarshal
  | ErrInvalidObject string
  | ErrNoMessaging
  | ErrEmptyRecipient
  | ErrMissingToken
  | ErrTransport string
  | ErrFbApi string
  | ErrNotRegistered string
  | ErrRecordNotFound
  | ErrDuplicateKey
  | ErrDatabase
  | ErrNilDereference

section \<open>Channel messages (channel/channel.go)\<close>

text \<open>
  A decoded JSON value, the \<open>interface{}\<close> of a webhook payload. A number is
  represented by its integer value: the adapters convert every number they read to
  \<open>int64\<close>. A \<open>map[string]interface{}\<close> is an association list read with
  \<open>map_of\<close>.
\<close>

datatype json =
    JNull
  | JBool bool
  | JNumber int
  | JString string
  | JArray "json list"
  | JObject "(string \<times> json) list"

type_synonym payload = "(string \<times> json) list"

record AttachmentData =
  att_Type :: string
  att_URL :: string
  att_Name :: string
  att_Size :: int
  att_MimeType :: string

record QuickReplyData =
  qr_Title :: string
  qr_Payload :: string

record ButtonData =
  btn_Type :: string
  btn_Title :: string
  btn_Payload :: string

record InboundMessage =
  in_ChannelType :: string
  in_ChannelMessageID :: string
  SenderID :: string
  SenderName :: string
  SenderAvatar :: string
  in_RecipientID :: string
  in_ThreadID :: string
  in_Content :: string
  in_ContentType :: string
  in_Attachments :: "AttachmentData list"
  Timestamp :: Time
  RawPayload :: payload

record OutboundMessage =
  RecipientID :: string
  ThreadID :: string
  Content :: string
  ContentType :: string
  out_Attachments :: "AttachmentData list"
  QuickReplies :: "QuickReplyData list"
  Buttons :: "ButtonData list"
  out_Metadata :: payload

record SendResult =
  Success :: bool
  sr_ChannelMessageID :: string
  Error :: "error option"

text \<open>Decimal printing, the \<open>%d\<close> of \<open>fmt.Sprintf\<close>.\<close>

fun nat_digits :: "nat \<Rightarrow> string" where
  "nat_digits n =
     (if n < 10 then [''0123456789'' ! n]
      else nat_digits (n div 10) @ [''0123456789'' ! (n mod 10)])"

declare nat_digits.simps [simp del]

definition Itoa :: "int \<Rightarrow> string" where
  "Itoa i = (if i < 0 then ''-'' @ nat_digits (nat (- i)) else nat_digits (nat i))"

text \<open>\<open>UUID.String\<close>: the printed form of an identifier.\<close>

definition uuid_String :: "UUID \<Rightarrow> string" where
  "uuid_String u = nat_digits u"

section \<open>Response builder (bot/response_builder.go)\<close>

definition default_handoff_message :: string where
  "default_handoff_message =
     [CHR 0xC4, CHR 0x90] @ ''ang chuy'' @ [CHR 0xE1, CHR 0xBB, CHR 0x83] @ ''n b'' @
     [CHR 0xE1, CHR 0xBA, CHR 0xA1] @ ''n '' @ [CHR 0xC4, CHR 0x91, CHR 0xE1, CHR 0xBA, CHR 0xBF] @
     ''n nh'' @ [CHR 0xC3, CHR 0xA2] @ ''n vi'' @ [CHR 0xC3, CHR 0xAA] @ ''n h'' @
     [CHR 0xE1, CHR 0xBB, CHR 0x97] @ '' tr'' @ [CHR 0xE1, CHR 0xBB, CHR 0xA3] @ ''...''"

definition BuildFromRule :: "Rule \<Rightarrow> string \<Rightarrow> OutboundMessage" where
  "BuildFromRule rule recipientID =
     (let msg = \<lparr>RecipientID = recipientID, ThreadID = '''', Content = '''',
                 ContentType = ''text'', out_Attachments = [], QuickReplies = [],
                 Buttons = [], out_Metadata = []\<rparr>
      in
        if ResponseType rule = ResponseText then msg\<lparr>Content := Text (ResponseConfig rule)\<rparr>
        else if ResponseType rule = ResponseTemplate
          then msg\<lparr>Content := Text (ResponseConfig rule)\<rparr>
        else if ResponseType rule = ResponseHandoff then
          (let msg1 = msg\<lparr>Content := Message (ResponseConfig rule)\<rparr>
           in if Content msg1 = '''' then msg1\<lparr>Content := default_handoff_message\<rparr>
              else msg1)
        else msg)"

section \<open>Mock channel (channel/mock.go)\<close>

text \<open>The type assertion \<open>v, ok := m[key].(string)\<close>.\<close>

fun assert_string :: "json option \<Rightarrow> string \<times> bool" where
  "assert_string (Some (JString v)) = (v, True)"
| "assert_string _ = ('''', False)"

definition getString :: "payload \<Rightarrow> string \<Rightarrow> string" where
  "getString m key = fst (assert_string (map_of m key))"

text \<open>The loop of \<open>Normalize\<close> over the raw attachments: entries that are not
  objects are skipped.\<close>

fun mock_attachments :: "json list \<Rightarrow> AttachmentData list" where
  "mock_attachments [] = []"
| "mock_attachments (JObject att # rest) =
     \<lparr>att_Type = getString att ''type'', att_URL = getString att ''url'',
      att_Name = getString att ''name'', att_Size = 0,
      att_MimeType = getString att ''mime_type''\<rparr> # mock_attachments rest"
| "mock_attachments (raw # rest) = mock_attachments rest"

text \<open>\<open>MockChannel.Normalize\<close>; both reads of the clock return \<open>now\<close>.\<close>

definition Normalize_mock :: "Time \<Rightarrow> UUID \<Rightarrow> payload \<Rightarrow> error + InboundMessage" where
  "Normalize_mock now channelAccountID payload =
     (let (senderID, ok) = assert_string (map_of payload ''sender_id'') in
      if \<not> ok \<or> senderID = '''' then Inl ErrMissingSenderID
      else
        let (content, _) = assert_string (map_of payload ''message'');
            (mid, ok_mid) = assert_string (map_of payload ''message_id'');
            messageID = (if \<not> ok_mid \<or> mid = ''''
                         then ''mock_'' @ senderID @ ''_'' @ Itoa now else mid);
            (senderName, _) = assert_string (map_of payload ''sender_name'');
            timestamp = (case map_of payload ''timestamp'' of
                           Some (JNumber ts) \<Rightarrow> ts * 1000000000
                         | _ \<Rightarrow> now);
            attachments = (case map_of payload ''attachments'' of
                             Some (JArray rawAttachments) \<Rightarrow> mock_attachments rawAttachments
                           | _ \<Rightarrow> []);
            contentType = (if attachments \<noteq> [] \<and> content = ''''
                           then att_Type (hd attachments) else ''text'')
        in Inr \<lparr>in_ChannelType = ''mock'', in_ChannelMessageID = messageID,
                 SenderID = senderID, SenderName = senderName, SenderAvatar = '''',
                 in_RecipientID = uuid_String channelAccountID, in_ThreadID = '''',
                 in_Content = content, in_ContentType = contentType,
                 in_Attachments = attachments, Timestamp = timestamp,
                 RawPayload = payload\<rparr>)"

text \<open>
  \<open>MockChannel.Send\<close>: the result, the function error (always nil) and the list of
  sent messages the channel keeps.
\<close>

definition Send_mock ::
  "Time \<Rightarrow> OutboundMessage list \<Rightarrow> OutboundMessage \<Rightarrow> (string \<rightharpoonup> string)
     \<Rightarrow> (SendResult \<times> error option) \<times> OutboundMessage list" where
  "Send_mock now sentMessages msg credentials =
     (if RecipientID msg = ''''
      then ((\<lparr>Success = False, sr_ChannelMessageID = '''', Error = Some ErrEmptyRecipient\<rparr>,
             None), sentMessages)
      else
        let messageID = ''mock_sent_'' @ Itoa now
        in ((\<lparr>Success = True, sr_ChannelMessageID = messageID, Error = None\<rparr>, None),
            sentMessages @ [msg]))"

section \<open>Facebook channel (channel/facebook.go)\<close>

record FBUser =
  fbu_ID :: string

record FBAttachPayload =
  fbp_URL :: string
  fbp_Title :: string
  fbp_Sticker :: int

record FBAttachment =
  fba_Type :: string
  fba_Payload :: FBAttachPayload

record FBQuickReply =
  fbq_Payload :: string

record FBPostback =
  pb_Title :: string
  pb_Payload :: string

record FBMessage =
  MID :: string
  fbm_Text :: string
  fbm_Attachments :: "FBAttachment list"
  QuickReply :: "FBQuickReply option"

record FBMessagingEvent =
  ev_Sender :: FBUser
  ev_Recipient :: FBUser
  ev_Timestamp :: int
  ev_Message :: "FBMessage option"
  ev_Postback :: "FBPostback option"

record FBWebhookEntry =
  en_ID :: string
  en_Time :: int
  Messaging :: "FBMessagingEvent list"

record FBWebhookPayload =
  Object :: string
  Entry :: "FBWebhookEntry list"

text \<open>
  \<open>json.Marshal\<close> of the decoded payload followed by \<open>json.Unmarshal\<close> into
  \<open>FBWebhookPayload\<close>, by the rules of \<open>encoding/json\<close>: a key that is absent or
  \<open>null\<close> leaves the zero value of the field, a value of another JSON type than the
  field's is an error, a number must fit \<open>int64\<close>. Keys are matched as they are written
  in the struct tags (the library also accepts a key that differs from the tag in letter
  case only).
\<close>

definition field :: "payload \<Rightarrow> string \<Rightarrow> json" where
  "field m key = (case map_of m key of Some v \<Rightarrow> v | None \<Rightarrow> JNull)"

fun dec_string :: "json \<Rightarrow> string option" where
  "dec_string JNull = Some ''''"
| "dec_string (JString s) = Some s"
| "dec_string _ = None"

fun dec_int64 :: "json \<Rightarrow> int option" where
  "dec_int64 JNull = Some 0"
| "dec_int64 (JNumber n) =
     (if - 9223372036854775808 \<le> n \<and> n \<le> 9223372036854775807 then Some n else None)"
| "dec_int64 _ = None"

definition dec_struct :: "(payload \<Rightarrow> 'a option) \<Rightarrow> 'a \<Rightarrow> json \<Rightarrow> 'a option" where
  "dec_struct dec zero j =
     (case j of JNull \<Rightarrow> Some zero | JObject m \<Rightarrow> dec m | _ \<Rightarrow> None)"

definition dec_ptr :: "(json \<Rightarrow> 'a option) \<Rightarrow> json \<Rightarrow> 'a option option" where
  "dec_ptr dec j = (case j of JNull \<Rightarrow> Some None | _ \<Rightarrow> map_option Some (dec j))"

definition dec_list :: "(json \<Rightarrow> 'a option) \<Rightarrow> json \<Rightarrow> 'a list option" where
  "dec_list dec j =
     (case j of JNull \<Rightarrow> Some [] | JArray xs \<Rightarrow> those (map dec xs) | _ \<Rightarrow> None)"

definition dec_FBUser :: "json \<Rightarrow> FBUser option" where
  "dec_FBUser =
     dec_struct (\<lambda>m. do { i \<leftarrow> dec_string (field m ''id''); Some \<lparr>fbu_ID = i\<rparr> })
       \<lparr>fbu_ID = ''''\<rparr>"

definition dec_FBAttachPayload :: "json \<Rightarrow> FBAttachPayload option" where
  "dec_FBAttachPayload =
     dec_struct (\<lambda>m. do {
         u \<leftarrow> dec_string (field m ''url'');
         t \<leftarrow> dec_string (field m ''title'');
         s \<leftarrow> dec_int64 (field m ''sticker_id'');
         Some \<lparr>fbp_URL = u, fbp_Title = t, fbp_Sticker = s\<rparr> })
       \<lparr>fbp_URL = '''', fbp_Title = '''', fbp_Sticker = 0\<rparr>"

definition dec_FBAttachment :: "json \<Rightarrow> FBAttachment option" where
  "dec_FBAttachment =
     dec_struct (\<lambda>m. do {
         t \<leftarrow> dec_string (field m ''type'');
         p \<leftarrow> dec_FBAttachPayload (field m ''payload'');
         Some \<lparr>fba_Type = t, fba_Payload = p\<rparr> })
       \<lparr>fba_Type = '''',
        fba_Payload = \<lparr>fbp_URL = '''', fbp_Title = '''', fbp_Sticker = 0\<rparr>\<rparr>"

definition dec_FBQuickReply :: "json \<Rightarrow> FBQuickReply option" where
  "dec_FBQuickReply =
     dec_struct (\<lambda>m. do { p \<leftarrow> dec_string (field m ''payload''); Some \<lparr>fbq_Payload = p\<rparr> })
       \<lparr>fbq_Payload = ''''\<rparr>"

definition dec_FBPostback :: "json \<Rightarrow> FBPostback option" where
  "dec_FBPostback =
     dec_struct (\<lambda>m. do {
         t \<leftarrow> dec_string (field m ''title'');
         p \<leftarrow> dec_string (field m ''payload'');
         Some \<lparr>pb_Title = t, pb_Payload = p\<rparr> })
       \<lparr>pb_Title = '''', pb_Payload = ''''\<rparr>"

definition dec_FBMessage :: "json \<Rightarrow> FBMessage option" where
  "dec_FBMessage =
     dec_struct (\<lambda>m. do {
         i \<leftarrow> dec_string (field m ''mid'');
         t \<leftarrow> dec_string (field m ''text'');
         a \<leftarrow> dec_list dec_FBAttachment (field m ''attachments'');
         q \<leftarrow> dec_ptr dec_FBQuickReply (field m ''quick_reply'');
         Some \<lparr>MID = i, fbm_Text = t, fbm_Attachments = a, QuickReply = q\<rparr> })
       \<lparr>MID = '''', fbm_Text = '''', fbm_Attachments = [], QuickReply = None\<rparr>"

definition dec_FBMessagingEvent :: "json \<Rightarrow> FBMessagingEvent option" where
  "dec_FBMessagingEvent =
     dec_struct (\<lambda>m. do {
         s \<leftarrow> dec_FBUser (field m ''sender'');
         r \<leftarrow> dec_FBUser (field m ''recipient'');
         t \<leftarrow> dec_int64 (field m ''timestamp'');
         msg \<leftarrow> dec_ptr dec_FBMessage (field m ''message'');
         pb \<leftarrow> dec_ptr dec_FBPostback (field m ''postback'');
         Some \<lparr>ev_Sender = s, ev_Recipient = r, ev_Timestamp = t, ev_Message = msg,
               ev_Postback = pb\<rparr> })
       \<lparr>ev_Sender = \<lparr>fbu_ID = ''''\<rparr>, ev_Recipient = \<lparr>fbu_ID = ''''\<rparr>, ev_Timestamp = 0,
        ev_Message = None, ev_Postback = None\<rparr>"

definition dec_FBWebhookEntry :: "json \<Rightarrow> FBWebhookEntry option" where
  "dec_FBWebhookEntry =
     dec_struct (\<lambda>m. do {
         i \<leftarrow> dec_string (field m ''id'');
         t \<leftarrow> dec_int64 (field m ''time'');
         ms \<leftarrow> dec_list dec_FBMessagingEvent (field m ''messaging'');
         Some \<lparr>en_ID = i, en_Time = t, Messaging = ms\<rparr> })
       \<lparr>en_ID = '''', en_Time = 0, Messaging = []\<rparr>"

definition dec_FBWebhookPayload :: "payload \<Rightarrow> FBWebhookPayload option" where
  "dec_FBWebhookPayload m = do {
     ob \<leftarrow> dec_string (field m ''object'');
     es \<leftarrow> dec_list dec_FBWebhookEntry (field m ''entry'');
     Some \<lparr>Object = ob, Entry = es\<rparr> }"

text \<open>The loop of \<open>Normalize\<close> over the attachments of the message.\<close>

fun fb_attachments :: "FBAttachment list \<Rightarrow> InboundMessage \<Rightarrow> InboundMessage" where
  "fb_attachments [] inbound = inbound"
| "fb_attachments (att # rest) inbound =
     (let attData = \<lparr>att_Type = fba_Type att, att_URL = fbp_URL (fba_Payload att),
                     att_Name = '''', att_Size = 0, att_MimeType = ''''\<rparr>;
          inbound1 = inbound\<lparr>in_Attachments := in_Attachments inbound @ [attData]\<rparr>;
          inbound2 = (if in_ContentType inbound1 = ''text'' \<and> fba_Type att \<noteq> ''''
                      then inbound1\<lparr>in_ContentType := fba_Type att\<rparr> else inbound1)
      in fb_attachments rest inbound2)"

text \<open>\<open>FacebookChannel.Normalize\<close>.\<close>

definition Normalize_fb :: "UUID \<Rightarrow> payload \<Rightarrow> error + InboundMessage" where
  "Normalize_fb channelAccountID payload =
     (case dec_FBWebhookPayload payload of
        None \<Rightarrow> Inl ErrUnmarshal
      | Some fbPayload \<Rightarrow>
          if Object fbPayload \<noteq> ''page'' then Inl (ErrInvalidObject (Object fbPayload))
          else if Entry fbPayload = [] \<or> Messaging (hd (Entry fbPayload)) = []
            then Inl ErrNoMessaging
          else
            let event = hd (Messaging (hd (Entry fbPayload)));
                inbound = \<lparr>in_ChannelType = ''facebook'', in_ChannelMessageID = '''',
                            SenderID = fbu_ID (ev_Sender event), SenderName = '''',
                            SenderAvatar = '''',
                            in_RecipientID = fbu_ID (ev_Recipient event), in_ThreadID = '''',
                            in_Content = '''', in_ContentType = '''', in_Attachments = [],
                            Timestamp = ev_Timestamp event * 1000000,
                            RawPayload = payload\<rparr>;
                inbound1 =
                  (case ev_Message event of
                     None \<Rightarrow> inbound
                   | Some m \<Rightarrow>
                       let i1 = inbound\<lparr>in_ChannelMessageID := MID m, in_Content := fbm_Text m,
                                        in_ContentType := ''text''\<rparr>;
                           i2 = fb_attachments (fbm_Attachments m) i1
                       in (case QuickReply m of
                             None \<Rightarrow> i2
                           | Some q \<Rightarrow> i2\<lparr>in_Content := fbq_Payload q\<rparr>));
                inbound2 =
                  (case ev_Postback event of
                     None \<Rightarrow> inbound1
                   | Some pb \<Rightarrow>
                       inbound1\<lparr>in_Content := pb_Payload pb, in_ContentType := ''postback'',
                                in_ChannelMessageID :=
                                  ''postback_'' @ Itoa (ev_Timestamp event)\<rparr>)
            in Inr inbound2)"

record FBSendQR =
  sqr_ContentType :: string
  sqr_Title :: string
  sqr_Payload :: string

record FBSendMessage =
  sm_Text :: string
  sm_QuickReplies :: "FBSendQR list"

record FBSendRequest =
  sreq_Recipient :: FBUser
  sreq_Message :: FBSendMessage
  MessagingType :: string

record HttpResponse =
  StatusCode :: int
  Body :: string

text \<open>
  What the code reads from outside the program: the time zone database
  (\<open>time.LoadLocation\<close>), the answer of the provider to \<open>http.Post\<close> (a transport
  error or a response; the request is passed as the struct that is marshalled into its
  body) and the \<open>message_id\<close> that \<open>json.Unmarshal\<close> finds in a response body.
\<close>

record Env =
  LoadLocation :: "string \<Rightarrow> Location option"
  HttpPost :: "string \<Rightarrow> FBSendRequest \<Rightarrow> error + HttpResponse"
  ResponseMessageID :: "string \<Rightarrow> string"

text \<open>
  \<open>FacebookChannel.Send\<close>: the result, the function error (always nil) and the requests
  posted to the provider during the call.
\<close>

definition Send_fb ::
  "Env \<Rightarrow> OutboundMessage \<Rightarrow> (string \<rightharpoonup> string)
     \<Rightarrow> (SendResult \<times> error option) \<times> (string \<times> FBSendRequest) list" where
  "Send_fb env msg credentials =
     (let accessToken = (case credentials ''page_access_token'' of None \<Rightarrow> '''' | Some t \<Rightarrow> t)
      in
        if accessToken = ''''
        then ((\<lparr>Success = False, sr_ChannelMessageID = '''', Error = Some ErrMissingToken\<rparr>,
               None), [])
        else
          let fbReq = \<lparr>sreq_Recipient = \<lparr>fbu_ID = RecipientID msg\<rparr>,
                        sreq_Message =
                          \<lparr>sm_Text = (if Content msg \<noteq> '''' then Content msg else ''''),
                           sm_QuickReplies =
                             map (\<lambda>qr. \<lparr>sqr_ContentType = ''text'', sqr_Title = qr_Title qr,
                                         sqr_Payload = qr_Payload qr\<rparr>) (QuickReplies msg)\<rparr>,
                        MessagingType = ''RESPONSE''\<rparr>;
              url = ''https://graph.facebook.com/v18.0/me/messages?access_token='' @ accessToken
          in
            (case HttpPost env url fbReq of
               Inl err \<Rightarrow>
                 ((\<lparr>Success = False, sr_ChannelMessageID = '''', Error = Some err\<rparr>, None),
                  [(url, fbReq)])
             | Inr resp \<Rightarrow>
                 if StatusCode resp \<noteq> 200
                 then ((\<lparr>Success = False, sr_ChannelMessageID = '''',
                         Error = Some (ErrFbApi (Body resp))\<rparr>, None), [(url, fbReq)])
                 else ((\<lparr>Success = True,
                         sr_ChannelMessageID = ResponseMessageID env (Body resp),
                         Error = None\<rparr>, None), [(url, fbReq)])))"

section \<open>Stored models (models/*.go)\<close>

record Participant = BaseModel +
  p_WorkspaceID :: UUID
  p_ChannelAccountID :: UUID
  ChannelUserID :: string
  p_Name :: "string option"
  AvatarURL :: "string option"
  FirstSeenAt :: Time

type_synonym ConversationStatus = string

definition StatusOpen :: ConversationStatus where
  "StatusOpen = ''open''"

definition StatusPending :: ConversationStatus where
  "StatusPending = ''pending''"

definition StatusClosed :: ConversationStatus where
  "StatusClosed = ''closed''"

definition StatusBotPaused :: ConversationStatus where
  "StatusBotPaused = ''bot_paused''"

definition PriorityNormal :: string where
  "PriorityNormal = ''normal''"

record ConversationMetadata =
  Source :: string
  BotHandoffReason :: string
  ClosedReason :: string
  SLABreached :: bool

record Conversation = BaseModel +
  c_WorkspaceID :: UUID
  c_ChannelAccountID :: UUID
  ParticipantID :: UUID
  ChannelThreadID :: "string option"
  Status :: ConversationStatus
  AssignedTo :: "UUID option"
  c_Priority :: string
  LastMessageAt :: "Time option"
  LastMessagePreview :: "string option"
  FirstResponseAt :: "Time option"
  ResolvedAt :: "Time option"
  c_Metadata :: ConversationMetadata

definition IsBotPaused :: "Conversation \<Rightarrow> bool" where
  "IsBotPaused c = (Status c = StatusBotPaused)"

definition Assign :: "Conversation \<Rightarrow> UUID \<Rightarrow> Conversation" where
  "Assign c userID =
     (let c1 = c\<lparr>AssignedTo := Some userID\<rparr>
      in if Status c1 = StatusOpen then c1\<lparr>Status := StatusPending\<rparr> else c1)"

definition Close :: "Time \<Rightarrow> Conversation \<Rightarrow> string \<Rightarrow> Conversation" where
  "Close now c reason =
     c\<lparr>Status := StatusClosed, ResolvedAt := Some now,
       c_Metadata := (c_Metadata c)\<lparr>ClosedReason := reason\<rparr>\<rparr>"

definition Reopen :: "Conversation \<Rightarrow> Conversation" where
  "Reopen c =
     c\<lparr>Status := StatusOpen, ResolvedAt := None,
       c_Metadata := (c_Metadata c)\<lparr>ClosedReason := ''''\<rparr>\<rparr>"

definition PauseBot :: "Conversation \<Rightarrow> string \<Rightarrow> Conversation" where
  "PauseBot c reason =
     c\<lparr>Status := StatusBotPaused,
       c_Metadata := (c_Metadata c)\<lparr>BotHandoffReason := reason\<rparr>\<rparr>"

definition ResumeBot :: "Conversation \<Rightarrow> Conversation" where
  "ResumeBot c =
     c\<lparr>Status := StatusOpen, c_Metadata := (c_Metadata c)\<lparr>BotHandoffReason := ''''\<rparr>\<rparr>"

definition UpdateLastMessage :: "Conversation \<Rightarrow> string \<Rightarrow> Time \<Rightarrow> Conversation" where
  "UpdateLastMessage c content t =
     (let c1 = c\<lparr>LastMessageAt := Some t\<rparr>
      in if length content > 500
         then c1\<lparr>LastMessagePreview := Some (take 497 content @ ''...'')\<rparr>
         else c1\<lparr>LastMessagePreview := Some content\<rparr>)"

definition DirectionIn :: string where
  "DirectionIn = ''in''"

definition DirectionOut :: string where
  "DirectionOut = ''out''"

definition SenderCustomer :: string where
  "SenderCustomer = ''customer''"

definition SenderBot :: string where
  "SenderBot = ''bot''"

definition ContentText :: string where
  "ContentText = ''text''"

record Attachment =
  a_Type :: string
  a_URL :: string
  a_Name :: string
  a_Size :: int
  a_MimeType :: string

text \<open>The fields of \<open>MessageMetadata\<close> that the pipeline sets; the others keep their
  zero value.\<close>

record MessageMetadata =
  MatchedRuleID :: "UUID option"
  md_MatchedKeyword :: string
  md_Confidence :: real

definition no_metadata :: MessageMetadata where
  "no_metadata = \<lparr>MatchedRuleID = None, md_MatchedKeyword = '''', md_Confidence = 0\<rparr>"

record Message = BaseModel +
  ConversationID :: UUID
  Direction :: string
  SenderType :: string
  m_SenderID :: "UUID option"
  m_Content :: "string option"
  m_ContentType :: string
  m_Attachments :: "Attachment list"
  m_ChannelMessageID :: "string option"
  m_Metadata :: MessageMetadata
  IsRead :: bool
  ReadAt :: "Time option"

record ChannelCredentials =
  PageAccessToken :: string
  AppSecret :: string
  WebhookSecret :: string

record ChannelAccount = BaseModel +
  ca_WorkspaceID :: UUID
  ca_ChannelType :: string
  ca_Name :: string
  ChannelID :: "string option"
  Credentials :: ChannelCredentials
  ca_IsActive :: bool

section \<open>The world the services run in\<close>

text \<open>The adapters that can be registered (\<open>Channel\<close> is an interface in the source).\<close>

datatype Channel = MockChannel | FacebookChannel

text \<open>
  The state outside one call: the tables of the database, the channel registry, the
  messages the mock channel has sent, and what the surroundings decide: the clock read by
  \<open>time.Now()\<close>, the identifiers \<open>uuid.New()\<close> returns (\<open>uuid_gen\<close> at the
  positions \<open>uuid_used\<close> onwards) and, for each coming call to the database, whether it
  fails (\<open>faults\<close>, none when the list is empty). \<open>http_log\<close> and \<open>bot_calls\<close>
  record the provider requests and the invocations of the bot responder, for the
  statements about what is attempted.
\<close>

record World =
  participants :: "Participant list"
  conversations :: "Conversation list"
  messages :: "Message list"
  rules :: "Rule list"
  channel_accounts :: "ChannelAccount list"
  registry :: "string \<rightharpoonup> Channel"
  sentMessages :: "OutboundMessage list"
  http_log :: "(string \<times> FBSendRequest) list"
  bot_calls :: "(UUID \<times> string \<times> string) list"
  clock :: Time
  uuid_gen :: "nat \<Rightarrow> UUID"
  uuid_used :: nat
  faults :: "bool list"

definition db_call :: "World \<Rightarrow> bool \<times> World" where
  "db_call w = (case faults w of [] \<Rightarrow> (False, w) | f # fs \<Rightarrow> (f, w\<lparr>faults := fs\<rparr>))"

text \<open>\<open>uuid.New()\<close> returns a random version-4 identifier, which is never \<open>uuid.Nil\<close>:
  the successor of the next value of \<open>uuid_gen\<close>.\<close>

definition uuid_New :: "World \<Rightarrow> UUID \<times> World" where
  "uuid_New w = (Suc (uuid_gen w (uuid_used w)), w\<lparr>uuid_used := Suc (uuid_used w)\<rparr>)"

text \<open>\<open>Registry.Get\<close>.\<close>

definition Registry_Get :: "World \<Rightarrow> string \<Rightarrow> error + Channel" where
  "Registry_Get w channelType =
     (case registry w channelType of
        None \<Rightarrow> Inl (ErrNotRegistered channelType)
      | Some channel \<Rightarrow> Inr channel)"

section \<open>The object-relational mapper\<close>

text \<open>
  The calls of GORM that the repositories make, on a table held as a list of rows.
  \<^item> \<open>Create\<close> runs \<open>BaseModel.BeforeCreate\<close>, stamps the row with the current time
    and inserts it; the primary key rejects an identifier that is already in the table.
    The caller's struct is updated through the pointer, so the row is returned also when
    the insertion fails.
  \<^item> \<open>Save\<close> writes every column of the row with that primary key and inserts the row
    when there is none; without a primary key it is \<open>Create\<close>.
  \<^item> \<open>First\<close> skips soft-deleted rows, orders by the given order and then by primary
    key, and fails with "record not found" when nothing matches.
\<close>

definition BeforeCreate :: "'a BaseModel_scheme \<Rightarrow> World \<Rightarrow> 'a BaseModel_scheme \<times> World" where
  "BeforeCreate b w =
     (if ID b = uuid_Nil then (let (u, w1) = uuid_New w in (b\<lparr>ID := u\<rparr>, w1)) else (b, w))"

definition gorm_Create ::
  "'a BaseModel_scheme list \<Rightarrow> 'a BaseModel_scheme \<Rightarrow> World
     \<Rightarrow> (error option \<times> 'a BaseModel_scheme \<times> 'a BaseModel_scheme list) \<times> World" where
  "gorm_Create table row w =
     (let (row1, w1) = BeforeCreate row w;
          (failed, w2) = db_call w1
      in if failed then ((Some ErrDatabase, row1, table), w2)
         else if ID row1 \<in> set (map ID table) then ((Some ErrDuplicateKey, row1, table), w2)
         else
           let row2 = row1\<lparr>CreatedAt := clock w2, UpdatedAt := clock w2\<rparr>
           in ((None, row2, table @ [row2]), w2))"

definition gorm_Save ::
  "'a BaseModel_scheme list \<Rightarrow> 'a BaseModel_scheme \<Rightarrow> World
     \<Rightarrow> (error option \<times> 'a BaseModel_scheme \<times> 'a BaseModel_scheme list) \<times> World" where
  "gorm_Save table row w =
     (if ID row = uuid_Nil then gorm_Create table row w
      else
        let (failed, w1) = db_call w
        in if failed then ((Some ErrDatabase, row, table), w1)
           else
             let row1 = row\<lparr>UpdatedAt := clock w1\<rparr>
             in if ID row1 \<in> set (map ID table)
                then ((None, row1, map (\<lambda>r. if ID r = ID row1 then row1 else r) table), w1)
                else ((None, row1, table @ [row1]), w1))"

text \<open>The first row of a list in an order: \<open>precedes a b\<close> says that \<open>a\<close> does not come
  after \<open>b\<close>.\<close>

fun first_by :: "('a \<Rightarrow> 'a \<Rightarrow> bool) \<Rightarrow> 'a list \<Rightarrow> 'a option" where
  "first_by precedes [] = None"
| "first_by precedes (x # xs) =
     (case first_by precedes xs of
        None \<Rightarrow> Some x
      | Some m \<Rightarrow> if precedes x m then Some x else Some m)"

definition gorm_First ::
  "('a BaseModel_scheme \<Rightarrow> 'a BaseModel_scheme \<Rightarrow> bool) \<Rightarrow> ('a BaseModel_scheme \<Rightarrow> bool)
     \<Rightarrow> 'a BaseModel_scheme list \<Rightarrow> World \<Rightarrow> (error + 'a BaseModel_scheme) \<times> World" where
  "gorm_First precedes cond table w =
     (let (failed, w1) = db_call w
      in if failed then (Inl ErrDatabase, w1)
         else
           (case first_by precedes (filter (\<lambda>r. DeletedAt r = None \<and> cond r) table) of
              None \<Rightarrow> (Inl ErrRecordNotFound, w1)
            | Some r \<Rightarrow> (Inr r, w1)))"

definition by_id :: "'a BaseModel_scheme \<Rightarrow> 'a BaseModel_scheme \<Rightarrow> bool" where
  "by_id a b = (ID a \<le> ID b)"

definition by_created_desc :: "'a BaseModel_scheme \<Rightarrow> 'a BaseModel_scheme \<Rightarrow> bool" where
  "by_created_desc a b =
     (CreatedAt b < CreatedAt a \<or> (CreatedAt a = CreatedAt b \<and> ID a \<le> ID b))"

section \<open>Repositories (repositories/*.go)\<close>

definition participant_FindByChannelUserID ::
  "UUID \<Rightarrow> string \<Rightarrow> World \<Rightarrow> (error + Participant) \<times> World" where
  "participant_FindByChannelUserID channelAccountID channelUserID w =
     gorm_First by_id
       (\<lambda>p. p_ChannelAccountID p = channelAccountID \<and> ChannelUserID p = channelUserID)
       (participants w) w"

definition participant_FindOrCreate ::
  "Participant \<Rightarrow> World \<Rightarrow> (error + Participant \<times> bool) \<times> World" where
  "participant_FindOrCreate participant w =
     (case participant_FindByChannelUserID (p_ChannelAccountID participant)
             (ChannelUserID participant) w of
        (Inr existing, w1) \<Rightarrow> (Inr (existing, False), w1)
      | (Inl _, w1) \<Rightarrow>
          (case gorm_Create (participants w1) participant w1 of
             ((Some err, _, _), w2) \<Rightarrow> (Inl err, w2)
           | ((None, created, table), w2) \<Rightarrow>
               (Inr (created, True), w2\<lparr>participants := table\<rparr>)))"

definition conversation_FindOpenByParticipant ::
  "UUID \<Rightarrow> World \<Rightarrow> (error + Conversation) \<times> World" where
  "conversation_FindOpenByParticipant participantID w =
     gorm_First by_created_desc
       (\<lambda>c. ParticipantID c = participantID \<and>
            Status c \<in> set [StatusOpen, StatusPending, StatusBotPaused])
       (conversations w) w"

definition conversation_FindOrCreate ::
  "Conversation \<Rightarrow> World \<Rightarrow> (error + Conversation \<times> bool) \<times> World" where
  "conversation_FindOrCreate conv w =
     (case conversation_FindOpenByParticipant (ParticipantID conv) w of
        (Inr existing, w1) \<Rightarrow> (Inr (existing, False), w1)
      | (Inl _, w1) \<Rightarrow>
          (case gorm_Create (conversations w1) conv w1 of
             ((Some err, _, _), w2) \<Rightarrow> (Inl err, w2)
           | ((None, created, table), w2) \<Rightarrow>
               (Inr (created, True), w2\<lparr>conversations := table\<rparr>)))"

definition conversation_Update ::
  "Conversation \<Rightarrow> World \<Rightarrow> (error option \<times> Conversation) \<times> World" where
  "conversation_Update conv w =
     (case gorm_Save (conversations w) conv w of
        ((err, conv1, table), w1) \<Rightarrow> ((err, conv1), w1\<lparr>conversations := table\<rparr>))"

definition message_FindByChannelMessageID ::
  "string \<Rightarrow> World \<Rightarrow> (error + Message) \<times> World" where
  "message_FindByChannelMessageID channelMessageID w =
     gorm_First by_id (\<lambda>m. m_ChannelMessageID m = Some channelMessageID) (messages w) w"

definition message_Create :: "Message \<Rightarrow> World \<Rightarrow> (error option \<times> Message) \<times> World" where
  "message_Create msg w =
     (case gorm_Create (messages w) msg w of
        ((err, msg1, table), w1) \<Rightarrow> ((err, msg1), w1\<lparr>messages := table\<rparr>))"

definition message_Update :: "Message \<Rightarrow> World \<Rightarrow> (error option \<times> Message) \<times> World" where
  "message_Update msg w =
     (case gorm_Save (messages w) msg w of
        ((err, msg1, table), w1) \<Rightarrow> ((err, msg1), w1\<lparr>messages := table\<rparr>))"

text \<open>\<open>ORDER BY priority DESC\<close>: rules of equal priority stay in the order of the
  table (the database leaves their order open).\<close>

definition rule_FindActiveByWorkspace :: "UUID \<Rightarrow> World \<Rightarrow> (error + Rule list) \<times> World" where
  "rule_FindActiveByWorkspace workspaceID w =
     (let (failed, w1) = db_call w
      in if failed then (Inl ErrDatabase, w1)
         else (Inr (sort_key (\<lambda>r. - Priority r)
                      (filter (\<lambda>r. DeletedAt r = None \<and> rule_WorkspaceID r = workspaceID \<and>
                                   IsActive r) (rules w1))), w1))"

definition rule_IncrementHitCount :: "UUID \<Rightarrow> World \<Rightarrow> error option \<times> World" where
  "rule_IncrementHitCount ruleID w =
     (let (failed, w1) = db_call w
      in if failed then (Some ErrDatabase, w1)
         else (None,
               w1\<lparr>rules := map (\<lambda>r. if ID r = ruleID \<and> DeletedAt r = None
                                     then r\<lparr>HitCount := HitCount r + 1,
                                            LastTriggeredAt := Some (clock w1),
                                            UpdatedAt := clock w1\<rparr>
                                     else r) (rules w1)\<rparr>))"

definition channelAccount_FindByID :: "UUID \<Rightarrow> World \<Rightarrow> (error + ChannelAccount) \<times> World" where
  "channelAccount_FindByID i w = gorm_First by_id (\<lambda>a. ID a = i) (channel_accounts w) w"

section \<open>Bot responder (bot/responder.go)\<close>

record BotResponse =
  ShouldReply :: bool
  Response :: "OutboundMessage option"
  ShouldHandoff :: bool
  HandoffReason :: string
  MatchedRule :: "Rule option"
  MatchedKeyword :: string
  Confidence :: real

text \<open>The value \<open>&BotResponse{ShouldReply: false}\<close>.\<close>

definition no_reply :: BotResponse where
  "no_reply = \<lparr>ShouldReply = False, Response = None, ShouldHandoff = False,
               HandoffReason = '''', MatchedRule = None, MatchedKeyword = '''',
               Confidence = 0\<rparr>"

text \<open>Step 4 of \<open>Process\<close>: the response for the matched rule.\<close>

definition respond :: "Rule \<Rightarrow> MatchResult \<Rightarrow> string \<Rightarrow> BotResponse" where
  "respond rule matchResult recipientID =
     (let response = no_reply\<lparr>MatchedRule := Some rule,
                              MatchedKeyword := mr_MatchedKeyword matchResult,
                              Confidence := mr_Confidence matchResult\<rparr>
      in
        if IsHandoffResponse rule then
          (let r1 = response\<lparr>ShouldHandoff := True,
                             HandoffReason := Message (ResponseConfig rule)\<rparr>;
               r2 = (if HandoffReason r1 = ''''
                     then r1\<lparr>HandoffReason := ''Customer requested agent''\<rparr> else r1)
           in if Message (ResponseConfig rule) \<noteq> ''''
              then r2\<lparr>ShouldReply := True,
                      Response := Some (BuildFromRule rule recipientID)\<rparr>
              else r2)
        else response\<lparr>ShouldReply := True,
                      Response := Some (BuildFromRule rule recipientID)\<rparr>)"

text \<open>
  \<open>responder.Process\<close>. A match result that is matched and has no rule does not come
  from \<open>Match\<close>; reading the identifier through the nil pointer is the error
  \<open>ErrNilDereference\<close>.
\<close>

definition Process ::
  "Env \<Rightarrow> UUID \<Rightarrow> string \<Rightarrow> string \<Rightarrow> World \<Rightarrow> (error + BotResponse) \<times> World" where
  "Process env workspaceID recipientID content w =
     (let w0 = w\<lparr>bot_calls := bot_calls w @ [(workspaceID, recipientID, content)]\<rparr>
      in case rule_FindActiveByWorkspace workspaceID w0 of
           (Inl err, w1) \<Rightarrow> (Inl err, w1)
         | (Inr found, w1) \<Rightarrow>
             if found = [] then (Inr no_reply, w1)
             else
               let matchResult = Match (LoadLocation env) (clock w1) found content
               in if \<not> Matched matchResult then (Inr no_reply, w1)
                  else
                    (case mr_Rule matchResult of
                       None \<Rightarrow> (Inl ErrNilDereference, w1)
                     | Some rule \<Rightarrow>
                         let (_, w2) = rule_IncrementHitCount (ID rule) w1
                         in (Inr (respond rule matchResult recipientID), w2)))"

section \<open>Message service (services/message_service_impl.go)\<close>

text \<open>
  The service runs one delivery at a time here. The two goroutines it starts (the
  realtime publication and the Facebook profile lookup) are detached and their outcome is
  not awaited; they are left out. A struct literal carries identifier 0 and time 0 until
  \<open>Create\<close> fills them in.
\<close>

record ProcessResult =
  res_ParticipantID :: UUID
  ParticipantCreated :: bool
  res_ConversationID :: UUID
  ConversationCreated :: bool
  MessageID :: UUID
  BotReplied :: bool
  BotHandoff :: bool
  ResponseSent :: "OutboundMessage option"

record botProcessResult =
  bp_ShouldReply :: bool
  bp_ShouldHandoff :: bool
  bp_ResponseSent :: "OutboundMessage option"

definition findOrCreateParticipant ::
  "UUID \<Rightarrow> UUID \<Rightarrow> InboundMessage \<Rightarrow> World \<Rightarrow> (error + Participant \<times> bool) \<times> World" where
  "findOrCreateParticipant workspaceID channelAccountID inbound w =
     (let participant =
            \<lparr>ID = uuid_Nil, CreatedAt = 0, UpdatedAt = 0, DeletedAt = None,
             p_WorkspaceID = workspaceID, p_ChannelAccountID = channelAccountID,
             ChannelUserID = SenderID inbound,
             p_Name = (if SenderName inbound \<noteq> '''' then Some (SenderName inbound) else None),
             AvatarURL = (if SenderAvatar inbound \<noteq> '''' then Some (SenderAvatar inbound)
                          else None),
             FirstSeenAt = clock w\<rparr>
      in participant_FindOrCreate participant w)"

definition findOrCreateConversation ::
  "UUID \<Rightarrow> UUID \<Rightarrow> UUID \<Rightarrow> World \<Rightarrow> (error + Conversation \<times> bool) \<times> World" where
  "findOrCreateConversation workspaceID channelAccountID participantID w =
     (let conversation =
            \<lparr>ID = uuid_Nil, CreatedAt = 0, UpdatedAt = 0, DeletedAt = None,
             c_WorkspaceID = workspaceID, c_ChannelAccountID = channelAccountID,
             ParticipantID = participantID, ChannelThreadID = None, Status = StatusOpen,
             AssignedTo = None, c_Priority = PriorityNormal, LastMessageAt = None,
             LastMessagePreview = None, FirstResponseAt = None, ResolvedAt = None,
             c_Metadata = \<lparr>Source = '''', BotHandoffReason = '''', ClosedReason = '''',
                           SLABreached = False\<rparr>\<rparr>
      in conversation_FindOrCreate conversation w)"

definition saveMessage ::
  "UUID \<Rightarrow> InboundMessage \<Rightarrow> World \<Rightarrow> (error + Message) \<times> World" where
  "saveMessage conversationID inbound w =
     (let message =
            \<lparr>ID = uuid_Nil, CreatedAt = 0, UpdatedAt = 0, DeletedAt = None,
             ConversationID = conversationID, Direction = DirectionIn,
             SenderType = SenderCustomer, m_SenderID = None,
             m_Content = (if in_Content inbound \<noteq> '''' then Some (in_Content inbound)
                          else None),
             m_ContentType = in_ContentType inbound,
             m_Attachments =
               map (\<lambda>att. \<lparr>a_Type = att_Type att, a_URL = att_URL att, a_Name = att_Name att,
                            a_Size = att_Size att, a_MimeType = att_MimeType att\<rparr>)
                 (in_Attachments inbound),
             m_ChannelMessageID =
               (if in_ChannelMessageID inbound \<noteq> '''' then Some (in_ChannelMessageID inbound)
                else None),
             m_Metadata = no_metadata, IsRead = False, ReadAt = None\<rparr>
      in case message_Create message w of
           ((Some err, _), w1) \<Rightarrow> (Inl err, w1)
         | ((None, message1), w1) \<Rightarrow> (Inr message1, w1))"

definition updateConversationLastMessage ::
  "Conversation \<Rightarrow> InboundMessage \<Rightarrow> World \<Rightarrow> (error option \<times> Conversation) \<times> World" where
  "updateConversationLastMessage conv inbound w =
     conversation_Update (UpdateLastMessage conv (in_Content inbound) (Timestamp inbound)) w"

text \<open>The call \<open>ch.Send\<close> through the \<open>Channel\<close> interface.\<close>

definition Channel_Send ::
  "Env \<Rightarrow> Channel \<Rightarrow> OutboundMessage \<Rightarrow> (string \<rightharpoonup> string) \<Rightarrow> World
     \<Rightarrow> (SendResult \<times> error option) \<times> World" where
  "Channel_Send env ch msg credentials w =
     (case ch of
        MockChannel \<Rightarrow>
          (case Send_mock (clock w) (sentMessages w) msg credentials of
             (r, sent) \<Rightarrow> (r, w\<lparr>sentMessages := sent\<rparr>))
      | FacebookChannel \<Rightarrow>
          (case Send_fb env msg credentials of
             (r, reqs) \<Rightarrow> (r, w\<lparr>http_log := http_log w @ reqs\<rparr>)))"

text \<open>
  The block of \<open>processBotResponse\<close> that stores and sends the reply
  (\<open>if botResponse.ShouldReply && botResponse.Response != nil\<close>). \<open>Process\<close> sets the
  matched rule of every response that replies, so the identifier of the rule is read
  with \<open>map_option\<close>.
\<close>

definition send_reply ::
  "Env \<Rightarrow> UUID \<Rightarrow> Conversation \<Rightarrow> InboundMessage \<Rightarrow> BotResponse \<Rightarrow> OutboundMessage
     \<Rightarrow> botProcessResult \<Rightarrow> World \<Rightarrow> (error + botProcessResult) \<times> World" where
  "send_reply env channelAccountID conv inbound botResponse response result w =
     (let outboundMsg =
            \<lparr>ID = uuid_Nil, CreatedAt = 0, UpdatedAt = 0, DeletedAt = None,
             ConversationID = ID conv, Direction = DirectionOut, SenderType = SenderBot,
             m_SenderID = None, m_Content = Some (Content response),
             m_ContentType = ContentText, m_Attachments = [], m_ChannelMessageID = None,
             m_Metadata = \<lparr>MatchedRuleID = map_option ID (MatchedRule botResponse),
                           md_MatchedKeyword = MatchedKeyword botResponse,
                           md_Confidence = Confidence botResponse\<rparr>,
             IsRead = False, ReadAt = None\<rparr>
      in case message_Create outboundMsg w of
           ((_, outboundMsg1), w1) \<Rightarrow>
             (case Registry_Get w1 (in_ChannelType inbound) of
                Inl err \<Rightarrow> (Inl err, w1)
              | Inr ch \<Rightarrow>
                  (case channelAccount_FindByID channelAccountID w1 of
                     (Inl _, w2) \<Rightarrow> (Inr result, w2)
                   | (Inr channelAcct, w2) \<Rightarrow>
                       let credentials =
                             [''page_access_token'' \<mapsto> PageAccessToken (Credentials channelAcct),
                              ''app_secret'' \<mapsto> AppSecret (Credentials channelAcct)]
                       in case Channel_Send env ch response credentials w2 of
                            ((sendResult, Some _), w3) \<Rightarrow> (Inr result, w3)
                          | ((sendResult, None), w3) \<Rightarrow>
                              if Success sendResult then
                                (let result1 = result\<lparr>bp_ShouldReply := True,
                                                      bp_ResponseSent := Some response\<rparr>
                                 in if sr_ChannelMessageID sendResult \<noteq> '''' then
                                      (case message_Update
                                              (outboundMsg1\<lparr>m_ChannelMessageID :=
                                                 Some (sr_ChannelMessageID sendResult)\<rparr>) w3 of
                                         (_, w4) \<Rightarrow> (Inr result1, w4))
                                    else (Inr result1, w3))
                              else (Inr result, w3))))"

text \<open>\<open>processBotResponse\<close>; the conversation is changed through the pointer and is
  returned with the result.\<close>

definition processBotResponse ::
  "Env \<Rightarrow> UUID \<Rightarrow> UUID \<Rightarrow> Conversation \<Rightarrow> InboundMessage \<Rightarrow> Message \<Rightarrow> World
     \<Rightarrow> ((error + botProcessResult) \<times> Conversation) \<times> World" where
  "processBotResponse env workspaceID channelAccountID conv inbound inboundMsg w =
     (case Process env workspaceID (SenderID inbound) (in_Content inbound) w of
        (Inl err, w1) \<Rightarrow> ((Inl err, conv), w1)
      | (Inr botResponse, w1) \<Rightarrow>
          let result = \<lparr>bp_ShouldReply = False, bp_ShouldHandoff = False,
                        bp_ResponseSent = None\<rparr>;
              (result1, conv1, w2) =
                (if ShouldHandoff botResponse then
                   (case conversation_Update (PauseBot conv (HandoffReason botResponse)) w1 of
                      ((_, paused), w') \<Rightarrow> (result\<lparr>bp_ShouldHandoff := True\<rparr>, paused, w'))
                 else (result, conv, w1))
          in
            (case Response botResponse of
               Some response \<Rightarrow>
                 if ShouldReply botResponse then
                   (case send_reply env channelAccountID conv1 inbound botResponse response
                           result1 w2 of
                      (r, w3) \<Rightarrow> ((r, conv1), w3))
                 else ((Inr result1, conv1), w2)
             | None \<Rightarrow> ((Inr result1, conv1), w2)))"

text \<open>\<open>ProcessInbound\<close>: the result or the error, and the world after the call.\<close>

definition ProcessInbound ::
  "Env \<Rightarrow> UUID \<Rightarrow> UUID \<Rightarrow> InboundMessage \<Rightarrow> World \<Rightarrow> (error + ProcessResult) \<times> World" where
  "ProcessInbound env workspaceID channelAccountID inbound w =
     (case findOrCreateParticipant workspaceID channelAccountID inbound w of
        (Inl err, w1) \<Rightarrow> (Inl err, w1)
      | (Inr (participant, participantCreated), w1) \<Rightarrow>
          (case findOrCreateConversation workspaceID channelAccountID (ID participant) w1 of
             (Inl err, w2) \<Rightarrow> (Inl err, w2)
           | (Inr (conversation, conversationCreated), w2) \<Rightarrow>
               (case saveMessage (ID conversation) inbound w2 of
                  (Inl err, w3) \<Rightarrow> (Inl err, w3)
                | (Inr message, w3) \<Rightarrow>
                    let result =
                          \<lparr>res_ParticipantID = ID participant,
                           ParticipantCreated = participantCreated,
                           res_ConversationID = ID conversation,
                           ConversationCreated = conversationCreated,
                           MessageID = ID message, BotReplied = False, BotHandoff = False,
                           ResponseSent = None\<rparr>
                    in case updateConversationLastMessage conversation inbound w3 of
                         ((_, conversation1), w4) \<Rightarrow>
                           if \<not> IsBotPaused conversation1 then
                             (case processBotResponse env workspaceID channelAccountID
                                     conversation1 inbound message w4 of
                                ((Inl err, _), w5) \<Rightarrow> (Inr result, w5)
                              | ((Inr botResponse, _), w5) \<Rightarrow>
                                  (Inr (result\<lparr>BotReplied := bp_ShouldReply botResponse,
                                               BotHandoff := bp_ShouldHandoff botResponse,
                                               ResponseSent := bp_ResponseSent botResponse\<rparr>),
                                   w5))
                           else (Inr result, w4))))"

section \<open>Specification predicates and example data\<close>

text \<open>
  A hit of the first pass, in the words of the specification: the rule is active, is not a
  fallback rule, and its keywords match the content or its time window holds the instant.
\<close>

definition first_pass_hit ::
  "(string \<Rightarrow> Location option) \<Rightarrow> Time \<Rightarrow> string \<Rightarrow> Rule \<Rightarrow> bool" where
  "first_pass_hit L now content r =
     (IsActive r \<and> TriggerType r \<noteq> TriggerFallback \<and>
      (MatchesKeyword r content \<or> MatchesTimeWindow L r now))"

definition example_rule ::
  "UUID \<Rightarrow> TriggerType \<Rightarrow> string list \<Rightarrow> ResponseType \<Rightarrow> string \<Rightarrow> string \<Rightarrow> int \<Rightarrow> Rule" where
  "example_rule i tt kws rt txt msg prio =
     \<lparr>ID = i, CreatedAt = 0, UpdatedAt = 0, DeletedAt = None,
      rule_WorkspaceID = 1, rule_Name = ''rule'', TriggerType = tt,
      TriggerConfig = \<lparr>Keywords = kws, MatchType = '''', StartTime = '''', EndTime = '''',
                       Timezone = '''', Days = []\<rparr>,
      ResponseType = rt,
      ResponseConfig = \<lparr>Text = txt, TemplateID = '''', Message = msg, AssignTo = None,
                        Tags = [], rc_Priority = ''''\<rparr>,
      Priority = prio, IsActive = True, HitCount = 0, LastTriggeredAt = None\<rparr>"

definition rule_p90 :: Rule where
  "rule_p90 = example_rule 1 TriggerKeyword [''hello''] ResponseText ''Hi!'' '''' 90"

definition rule_p50 :: Rule where
  "rule_p50 = example_rule 2 TriggerKeyword [''price''] ResponseText ''Ask sales'' '''' 50"

definition rule_p10 :: Rule where
  "rule_p10 =
     example_rule 3 TriggerKeyword [''good day'', ''hello''] ResponseText ''Good day'' '''' 10"

definition rule_two_keywords :: Rule where
  "rule_two_keywords =
     example_rule 4 TriggerKeyword [''hello'', ''bye''] ResponseText ''ok'' '''' 5"

definition rule_overnight :: Rule where
  "rule_overnight =
     (example_rule 5 TriggerTimeWindow [] ResponseText ''We are closed'' '''' 20)
       \<lparr>TriggerConfig := \<lparr>Keywords = [], MatchType = '''', StartTime = ''22:00'',
                          EndTime = ''06:00'', Timezone = ''Mars/Olympus'', Days = []\<rparr>\<rparr>"

definition rule_handoff_silent :: Rule where
  "rule_handoff_silent =
     example_rule 6 TriggerKeyword [''agent''] ResponseHandoff '''' '''' 70"

definition rule_handoff_notice :: Rule where
  "rule_handoff_notice =
     example_rule 7 TriggerKeyword [''human''] ResponseHandoff '''' ''Connecting you'' 60"

text \<open>A host without a time zone database, and a provider that refuses every request.\<close>

definition no_zones :: "string \<Rightarrow> Location option" where
  "no_zones tz = None"

definition example_env :: Env where
  "example_env =
     \<lparr>LoadLocation = no_zones,
      HttpPost = (\<lambda>url req. Inr \<lparr>StatusCode = 500, Body = ''token expired''\<rparr>),
      ResponseMessageID = (\<lambda>body. '''')\<rparr>"

definition example_outbound :: OutboundMessage where
  "example_outbound =
     \<lparr>RecipientID = ''u1'', ThreadID = '''', Content = ''Hi!'', ContentType = ''text'',
      out_Attachments = [], QuickReplies = [], Buttons = [], out_Metadata = []\<rparr>"

text \<open>A Messenger webhook whose messaging event has no \<open>sender\<close> object.\<close>

definition fb_payload_without_sender :: payload where
  "fb_payload_without_sender =
     [(''object'', JString ''page''),
      (''entry'', JArray [JObject
         [(''id'', JString ''page-1''),
          (''time'', JNumber 1700000000000),
          (''messaging'', JArray [JObject
             [(''recipient'', JObject [(''id'', JString ''page-1'')]),
              (''timestamp'', JNumber 1700000000000),
              (''message'',
                 JObject [(''mid'', JString ''m1''), (''text'', JString ''hi'')])]])]])]"

definition empty_world :: World where
  "empty_world =
     \<lparr>participants = [], conversations = [], messages = [], rules = [],
      channel_accounts = [],
      registry = [''mock'' \<mapsto> MockChannel, ''facebook'' \<mapsto> FacebookChannel],
      sentMessages = [], http_log = [], bot_calls = [], clock = 1700000000000000000,
      uuid_gen = (\<lambda>n. 100 + n), uuid_used = 0, faults = []\<rparr>"

definition handoff_world :: World where
  "handoff_world = empty_world\<lparr>rules := [rule_handoff_notice, rule_handoff_silent]\<rparr>"

text \<open>
  What the lookups of the repositories return when the database does not fail: the active
  conversation of a participant that \<open>FindOpenByParticipant\<close> finds (the newest one in an
  active state), and the participant that \<open>FindByChannelUserID\<close> finds.
\<close>

definition active_for :: "UUID \<Rightarrow> Conversation \<Rightarrow> bool" where
  "active_for pid c =
     (DeletedAt c = None \<and> ParticipantID c = pid \<and>
      Status c \<in> set [StatusOpen, StatusPending, StatusBotPaused])"

definition current_conversation :: "World \<Rightarrow> UUID \<Rightarrow> Conversation option" where
  "current_conversation w pid =
     first_by by_created_desc (filter (active_for pid) (conversations w))"

definition current_participant :: "World \<Rightarrow> UUID \<Rightarrow> string \<Rightarrow> Participant option" where
  "current_participant w acct uid =
     first_by by_id
       (filter (\<lambda>p. DeletedAt p = None \<and> p_ChannelAccountID p = acct \<and> ChannelUserID p = uid)
          (participants w))"

text \<open>The conversation that the first two steps of \<open>ProcessInbound\<close> resolve.\<close>

definition resolved_conversation ::
  "UUID \<Rightarrow> UUID \<Rightarrow> InboundMessage \<Rightarrow> World \<Rightarrow> Conversation option" where
  "resolved_conversation ws acct inb w =
     (case findOrCreateParticipant ws acct inb w of
        (Inl _, _) \<Rightarrow> None
      | (Inr (p, _), w1) \<Rightarrow>
          (case findOrCreateConversation ws acct (ID p) w1 of
             (Inl _, _) \<Rightarrow> None
           | (Inr (c, _), _) \<Rightarrow> Some c))"

text \<open>
  A send succeeded between two worlds: the mock channel has recorded one more sent message,
  or a request was posted to the provider that it answers with status 200. The rows of the
  messages table written by the bot.
\<close>

definition send_succeeded :: "Env \<Rightarrow> World \<Rightarrow> World \<Rightarrow> bool" where
  "send_succeeded env w w' =
     (length (sentMessages w) < length (sentMessages w') \<or>
      (\<exists>(url, req) \<in> set (drop (length (http_log w)) (http_log w')).
         case HttpPost env url req of Inl _ \<Rightarrow> False | Inr resp \<Rightarrow> StatusCode resp = 200))"

definition bot_rows :: "World \<Rightarrow> Message list" where
  "bot_rows w = filter (\<lambda>m. SenderType m = SenderBot) (messages w)"

text \<open>A payload of the mock channel and the inbound message it is normalised to.\<close>

definition redelivered_payload :: payload where
  "redelivered_payload =
     [(''sender_id'', JString ''u1''), (''sender_name'', JString ''Test''),
      (''message'', JString ''hello''), (''message_id'', JString ''m1''),
      (''timestamp'', JNumber 1700000000)]"

definition redelivered_inbound :: InboundMessage where
  "redelivered_inbound =
     \<lparr>in_ChannelType = ''mock'', in_ChannelMessageID = ''m1'', SenderID = ''u1'',
      SenderName = ''Test'', SenderAvatar = '''', in_RecipientID = ''9'', in_ThreadID = '''',
      in_Content = ''hello'', in_ContentType = ''text'', in_Attachments = [],
      Timestamp = 1700000000000000000, RawPayload = redelivered_payload\<rparr>"

definition example_inbound :: "string \<Rightarrow> string \<Rightarrow> string \<Rightarrow> InboundMessage" where
  "example_inbound channelType mid content =
     \<lparr>in_ChannelType = channelType, in_ChannelMessageID = mid, SenderID = ''u1'',
      SenderName = ''Test'', SenderAvatar = '''', in_RecipientID = ''9'', in_ThreadID = '''',
      in_Content = content, in_ContentType = ''text'', in_Attachments = [],
      Timestamp = 1700000000000000000, RawPayload = []\<rparr>"

text \<open>A Messenger page account with a token, and a world with it and one greeting rule.\<close>

definition example_account :: ChannelAccount where
  "example_account =
     \<lparr>ID = 9, CreatedAt = 0, UpdatedAt = 0, DeletedAt = None, ca_WorkspaceID = 1,
      ca_ChannelType = ''facebook'', ca_Name = ''page'', ChannelID = None,
      Credentials = \<lparr>PageAccessToken = ''token'', AppSecret = '''', WebhookSecret = ''''\<rparr>,
      ca_IsActive = True\<rparr>"

definition greeting_world :: World where
  "greeting_world = empty_world\<lparr>rules := [rule_p90], channel_accounts := [example_account]\<rparr>"

definition example_conversation :: Conversation where
  "example_conversation =
     \<lparr>ID = 50, CreatedAt = 0, UpdatedAt = 0, DeletedAt = None,
      c_WorkspaceID = 1, c_ChannelAccountID = 9, ParticipantID = 40, ChannelThreadID = None,
      Status = StatusOpen, AssignedTo = None, c_Priority = PriorityNormal,
      LastMessageAt = None, LastMessagePreview = None, FirstResponseAt = None,
      ResolvedAt = None,
      c_Metadata = \<lparr>Source = '''', BotHandoffReason = '''', ClosedReason = '''',
                    SLABreached = False\<rparr>\<rparr>"

definition example_message :: Message where
  "example_message =
     \<lparr>ID = 60, CreatedAt = 0, UpdatedAt = 0, DeletedAt = None,
      ConversationID = 50, Direction = DirectionIn, SenderType = SenderCustomer,
      m_SenderID = None, m_Content = Some ''I want an agent'', m_ContentType = ''text'',
      m_Attachments = [], m_ChannelMessageID = None, m_Metadata = no_metadata,
      IsRead = False, ReadAt = None\<rparr>"


section \<open>Evaluation rules\<close>

lemmas string_eval =
  ToLower_def lower_byte_def str_le_def

lemmas rule_eval =
  example_rule_def MatchesKeyword_def MatchesTimeWindow_def IsKeywordTrigger_def
  IsTimeWindowTrigger_def IsFallbackTrigger_def IsHandoffResponse_def matchKeyword_def
  TriggerKeyword_def TriggerTimeWindow_def TriggerFallback_def ResponseText_def
  ResponseTemplate_def ResponseHandoff_def



lemmas json_eval =
  dec_FBWebhookPayload_def dec_FBWebhookEntry_def dec_FBMessagingEvent_def dec_FBMessage_def
  dec_FBUser_def dec_FBPostback_def dec_FBQuickReply_def dec_FBAttachment_def
  dec_FBAttachPayload_def dec_struct_def dec_ptr_def dec_list_def field_def

section \<open>The rule engine\<close>

lemma find_keyword_fst: "fst (find_keyword rule ks)"
  by (induction ks) auto

lemma matchKeyword_fst: "fst (matchKeyword rule content) = MatchesKeyword rule content"
  by (simp add: matchKeyword_def find_keyword_fst)

lemma MatchesKeyword_trigger: "MatchesKeyword r content \<Longrightarrow> TriggerType r = TriggerKeyword"
  by (auto simp: MatchesKeyword_def IsKeywordTrigger_def split: if_splits)

lemma MatchesTimeWindow_trigger:
  "MatchesTimeWindow L r now \<Longrightarrow> TriggerType r = TriggerTimeWindow"
  by (auto simp: MatchesTimeWindow_def IsTimeWindowTrigger_def split: if_splits)

lemma trigger_consts_distinct:
  "TriggerKeyword \<noteq> TriggerFallback" "TriggerTimeWindow \<noteq> TriggerFallback"
  "TriggerKeyword \<noteq> TriggerTimeWindow"
  by (simp_all add: TriggerKeyword_def TriggerFallback_def TriggerTimeWindow_def)

lemma first_pass_find:
  "first_pass L now content rs =
     (case find (first_pass_hit L now content) rs of
        Some r \<Rightarrow> Some \<lparr>Matched = True, mr_Rule = Some r,
                        mr_MatchedKeyword = snd (matchKeyword r content), mr_Confidence = 1\<rparr>
      | None \<Rightarrow> None)"
proof (induction rs)
  case Nil
  show ?case by simp
next
  case (Cons rule rest)
  show ?case
  proof (cases "first_pass_hit L now content rule")
    case True
    then have act: "IsActive rule" by (simp add: first_pass_hit_def)
    from True consider (kw) "MatchesKeyword rule content"
      | (tw) "\<not> MatchesKeyword rule content" "MatchesTimeWindow L rule now"
      by (auto simp: first_pass_hit_def)
    then show ?thesis
    proof cases
      case kw
      then have "TriggerType rule = TriggerKeyword" by (rule MatchesKeyword_trigger)
      moreover obtain k where "matchKeyword rule content = (True, k)"
        using kw matchKeyword_fst[of rule content] by (cases "matchKeyword rule content") auto
      ultimately show ?thesis using True act by simp
    next
      case tw
      then have tt: "TriggerType rule = TriggerTimeWindow"
        by (auto dest: MatchesTimeWindow_trigger)
      have "snd (matchKeyword rule content) = []" using tw by (simp add: matchKeyword_def)
      then show ?thesis using True act tt tw trigger_consts_distinct by simp
    qed
  next
    case False
    have "first_pass L now content (rule # rest) = first_pass L now content rest"
    proof (cases "IsActive rule")
      case inactive: False
      then show ?thesis by simp
    next
      case active: True
      show ?thesis
      proof (cases "TriggerType rule = TriggerKeyword")
        case True
        with False active have "\<not> MatchesKeyword rule content"
          using trigger_consts_distinct by (auto simp: first_pass_hit_def)
        then have "matchKeyword rule content = (False, [])" by (simp add: matchKeyword_def)
        then show ?thesis using True active by simp
      next
        case nk: False
        show ?thesis
        proof (cases "TriggerType rule = TriggerTimeWindow")
          case True
          with False active have "\<not> MatchesTimeWindow L rule now"
            using trigger_consts_distinct by (auto simp: first_pass_hit_def)
          then show ?thesis using True nk active by simp
        next
          case False
          then show ?thesis using nk active by simp
        qed
      qed
    qed
    then show ?thesis using False Cons.IH by simp
  qed
qed

lemma fallback_pass_find:
  "fallback_pass rs =
     (case find (\<lambda>r. TriggerType r = TriggerFallback \<and> IsActive r) rs of
        Some r \<Rightarrow> Some \<lparr>Matched = True, mr_Rule = Some r, mr_MatchedKeyword = '''',
                        mr_Confidence = 1 / 2\<rparr>
      | None \<Rightarrow> None)"
  by (induction rs) auto

lemma find_sorted_max:
  assumes "sorted_wrt (\<lambda>a b. f b \<le> (f a :: int)) xs" "find P xs = Some x" "y \<in> set xs" "P y"
  shows "f y \<le> f x"
  using assms
proof (induction xs)
  case Nil
  then show ?case by simp
next
  case (Cons a xs)
  then show ?case by (auto split: if_splits)
qed

text \<open>
  C2. For every list of rules, \<open>Match\<close> returns the first rule in list order that is a hit
  of the first pass (active, not a fallback rule, matching the content or the instant),
  with confidence 1; when there is none, the first active fallback rule, with confidence
  0.5; when there is none either, \<open>Matched = False\<close>. When the list is in descending
  order of priority, no hit of the first pass has a higher priority than the rule returned.
\<close>

theorem Match_first_hit_then_fallback:
  "Match L now rs content =
     (case find (first_pass_hit L now content) rs of
        Some r \<Rightarrow> \<lparr>Matched = True, mr_Rule = Some r,
                   mr_MatchedKeyword = snd (matchKeyword r content), mr_Confidence = 1\<rparr>
      | None \<Rightarrow>
          (case find (\<lambda>r. TriggerType r = TriggerFallback \<and> IsActive r) rs of
             Some r \<Rightarrow> \<lparr>Matched = True, mr_Rule = Some r, mr_MatchedKeyword = '''',
                        mr_Confidence = 1 / 2\<rparr>
           | None \<Rightarrow> no_match))
   \<and> (sorted_wrt (\<lambda>a b. Priority b \<le> Priority a) rs \<longrightarrow>
        (\<forall>r r'. find (first_pass_hit L now content) rs = Some r \<and> r' \<in> set rs \<and>
                first_pass_hit L now content r' \<longrightarrow> Priority r' \<le> Priority r))"
proof
  show "Match L now rs content =
     (case find (first_pass_hit L now content) rs of
        Some r \<Rightarrow> \<lparr>Matched = True, mr_Rule = Some r,
                   mr_MatchedKeyword = snd (matchKeyword r content), mr_Confidence = 1\<rparr>
      | None \<Rightarrow>
          (case find (\<lambda>r. TriggerType r = TriggerFallback \<and> IsActive r) rs of
             Some r \<Rightarrow> \<lparr>Matched = True, mr_Rule = Some r, mr_MatchedKeyword = '''',
                        mr_Confidence = 1 / 2\<rparr>
           | None \<Rightarrow> no_match))"
    by (simp add: Match_def first_pass_find fallback_pass_find split: option.splits)
next
  show "sorted_wrt (\<lambda>a b. Priority b \<le> Priority a) rs \<longrightarrow>
        (\<forall>r r'. find (first_pass_hit L now content) rs = Some r \<and> r' \<in> set rs \<and>
                first_pass_hit L now content r' \<longrightarrow> Priority r' \<le> Priority r)"
    using find_sorted_max[of Priority rs "first_pass_hit L now content"] by blast
qed

text \<open>The rules of priority 90, 50 and 10, of which the first and the last match the
  content: the rule of priority 90 is returned.\<close>

theorem Match_first_hit_then_fallback_witness:
  "sorted_wrt (\<lambda>a b. Priority b \<le> Priority a) [rule_p90, rule_p50, rule_p10]
   \<and> first_pass_hit no_zones 0 ''Hello there'' rule_p90
   \<and> \<not> first_pass_hit no_zones 0 ''Hello there'' rule_p50
   \<and> first_pass_hit no_zones 0 ''Hello there'' rule_p10
   \<and> Match no_zones 0 [rule_p90, rule_p50, rule_p10] ''Hello there'' =
       \<lparr>Matched = True, mr_Rule = Some rule_p90, mr_MatchedKeyword = ''hello'',
        mr_Confidence = 1\<rparr>
   \<and> Priority rule_p10 \<le> Priority rule_p90"
  using Match_first_hit_then_fallback
          [of no_zones 0 "[rule_p90, rule_p50, rule_p10]" "''Hello there''"]
  by (simp add: first_pass_hit_def rule_p90_def rule_p50_def rule_p10_def rule_eval string_eval)

text \<open>
  C3. The claim says that the keyword reported for a keyword rule is the first configured
  keyword that matches the content. \<open>matchKeyword\<close> tests each keyword against the
  keywords of the rule, not against the content: for the keywords "hello" and "bye" and the
  content "bye", the rule matches with confidence 1 and the keyword reported is "hello",
  which does not occur in the content.
\<close>

theorem matchKeyword_reports_first_keyword:
  "matchKeyword rule_two_keywords ''bye'' = (True, ''hello'')
   \<and> \<not> Contains (ToLower ''bye'') (ToLower ''hello'')
   \<and> Contains (ToLower ''bye'') (ToLower ''bye'')
   \<and> Match no_zones 0 [rule_two_keywords] ''bye'' =
       \<lparr>Matched = True, mr_Rule = Some rule_two_keywords, mr_MatchedKeyword = ''hello'',
        mr_Confidence = 1\<rparr>"
  by (simp add: Match_def rule_two_keywords_def rule_eval string_eval)

lemma day_loop_mem: "day_loop d ds = (d \<in> set ds)"
  by (induction ds) auto

text \<open>
  C4. For every rule with a time window trigger: when the time zone of the rule cannot be
  loaded the rule is evaluated in UTC; in the location of the rule, a non-empty list of
  days that does not hold the local weekday makes the rule not match; otherwise the local
  clock as \<open>HH:mm\<close> is compared with the configured range, a start after the end
  meaning a window over midnight. With start 22:00 and end 06:00 the rule matches when the
  local clock reads 23:30 or 02:00 and does not match when it reads 12:00.
\<close>

theorem MatchesTimeWindow_overnight:
  assumes "TriggerType r = TriggerTimeWindow"
  shows
    "(L (Timezone (TriggerConfig r)) = None \<longrightarrow>
        MatchesTimeWindow L r now = MatchesTimeWindow (\<lambda>tz. Some UTC) r now)
     \<and> (\<forall>loc. L (Timezone (TriggerConfig r)) = Some loc \<longrightarrow>
          (Days (TriggerConfig r) \<noteq> [] \<and> Weekday loc now \<notin> set (Days (TriggerConfig r))
             \<longrightarrow> \<not> MatchesTimeWindow L r now)
        \<and> (Days (TriggerConfig r) = [] \<or> Weekday loc now \<in> set (Days (TriggerConfig r))
             \<longrightarrow> MatchesTimeWindow L r now =
                 (if str_less (EndTime (TriggerConfig r)) (StartTime (TriggerConfig r))
                  then str_le (StartTime (TriggerConfig r)) (Format_HHmm loc now) \<or>
                       str_le (Format_HHmm loc now) (EndTime (TriggerConfig r))
                  else str_le (StartTime (TriggerConfig r)) (Format_HHmm loc now) \<and>
                       str_le (Format_HHmm loc now) (EndTime (TriggerConfig r))))
        \<and> (StartTime (TriggerConfig r) = ''22:00'' \<and> EndTime (TriggerConfig r) = ''06:00'' \<and>
           (Days (TriggerConfig r) = [] \<or> Weekday loc now \<in> set (Days (TriggerConfig r)))
             \<longrightarrow> (Format_HHmm loc now = ''23:30'' \<longrightarrow> MatchesTimeWindow L r now)
               \<and> (Format_HHmm loc now = ''02:00'' \<longrightarrow> MatchesTimeWindow L r now)
               \<and> (Format_HHmm loc now = ''12:00'' \<longrightarrow> \<not> MatchesTimeWindow L r now)))"
  using assms
  by (auto simp: MatchesTimeWindow_def IsTimeWindowTrigger_def day_loop_mem Let_def str_le_def)

text \<open>A rule from 22:00 to 06:00 in a zone the host does not know, at three instants of
  1 January 1970.\<close>

theorem MatchesTimeWindow_overnight_witness:
  "TriggerType rule_overnight = TriggerTimeWindow
   \<and> no_zones (Timezone (TriggerConfig rule_overnight)) = None
   \<and> Format_HHmm UTC (84600 * 1000000000) = ''23:30''
   \<and> Format_HHmm UTC (7200 * 1000000000) = ''02:00''
   \<and> Format_HHmm UTC (43200 * 1000000000) = ''12:00''
   \<and> MatchesTimeWindow no_zones rule_overnight (84600 * 1000000000)
   \<and> MatchesTimeWindow no_zones rule_overnight (7200 * 1000000000)
   \<and> \<not> MatchesTimeWindow no_zones rule_overnight (43200 * 1000000000)"
proof -
  have tt: "TriggerType rule_overnight = TriggerTimeWindow"
    by (simp add: rule_overnight_def example_rule_def)
  have cfg: "StartTime (TriggerConfig rule_overnight) = ''22:00''"
    "EndTime (TriggerConfig rule_overnight) = ''06:00''"
    "Days (TriggerConfig rule_overnight) = []"
    "no_zones (Timezone (TriggerConfig rule_overnight)) = None"
    by (simp_all add: rule_overnight_def example_rule_def no_zones_def)
  have fmt: "Format_HHmm UTC (84600 * 1000000000) = ''23:30''"
    "Format_HHmm UTC (7200 * 1000000000) = ''02:00''"
    "Format_HHmm UTC (43200 * 1000000000) = ''12:00''"
    by (simp_all add: Format_HHmm_def local_seconds_def UTC_def two_digits_def)
  have a: "MatchesTimeWindow no_zones rule_overnight t =
           MatchesTimeWindow (\<lambda>tz. Some UTC) rule_overnight t" for t
    using MatchesTimeWindow_overnight[OF tt, of no_zones t] cfg by simp
  have b: "(Format_HHmm UTC t = ''23:30'' \<longrightarrow>
              MatchesTimeWindow (\<lambda>tz. Some UTC) rule_overnight t)
         \<and> (Format_HHmm UTC t = ''02:00'' \<longrightarrow>
              MatchesTimeWindow (\<lambda>tz. Some UTC) rule_overnight t)
         \<and> (Format_HHmm UTC t = ''12:00'' \<longrightarrow>
              \<not> MatchesTimeWindow (\<lambda>tz. Some UTC) rule_overnight t)" for t
    using MatchesTimeWindow_overnight[OF tt, of "\<lambda>tz. Some UTC" t] cfg
    by (simp add: str_le_def)
  show ?thesis using tt cfg fmt a b by simp
qed

section \<open>The bot responder\<close>






section \<open>The channel adapters\<close>

text \<open>The four ways a call of \<open>FacebookChannel.Send\<close> ends.\<close>

lemma Send_fb_cases [consumes 0, case_names missing transport refused accepted]:
  obtains
    (missing) "creds ''page_access_token'' = None \<or> creds ''page_access_token'' = Some ''''"
      "Send_fb env msg creds =
         ((\<lparr>Success = False, sr_ChannelMessageID = '''', Error = Some ErrMissingToken\<rparr>, None),
          [])"
  | (transport) token url req e where
      "creds ''page_access_token'' = Some token" "token \<noteq> ''''"
      "HttpPost env url req = Inl e"
      "Send_fb env msg creds =
         ((\<lparr>Success = False, sr_ChannelMessageID = '''', Error = Some e\<rparr>, None),
          [(url, req)])"
  | (refused) token url req resp where
      "creds ''page_access_token'' = Some token" "token \<noteq> ''''"
      "HttpPost env url req = Inr resp" "StatusCode resp \<noteq> 200"
      "Send_fb env msg creds =
         ((\<lparr>Success = False, sr_ChannelMessageID = '''',
            Error = Some (ErrFbApi (Body resp))\<rparr>, None), [(url, req)])"
  | (accepted) token url req resp where
      "creds ''page_access_token'' = Some token" "token \<noteq> ''''"
      "HttpPost env url req = Inr resp" "StatusCode resp = 200"
      "Send_fb env msg creds =
         ((\<lparr>Success = True, sr_ChannelMessageID = ResponseMessageID env (Body resp),
            Error = None\<rparr>, None), [(url, req)])"
proof (cases "creds ''page_access_token''")
  case None
  then show ?thesis using missing by (simp add: Send_fb_def)
next
  case (Some token)
  show ?thesis
  proof (cases "token = ''''")
    case True
    then show ?thesis using Some missing by (simp add: Send_fb_def)
  next
    case False
    define url where
      "url = ''https://graph.facebook.com/v18.0/me/messages?access_token='' @ token"
    define req where
      "req = \<lparr>sreq_Recipient = \<lparr>fbu_ID = RecipientID msg\<rparr>,
              sreq_Message =
                \<lparr>sm_Text = (if Content msg \<noteq> '''' then Content msg else ''''),
                 sm_QuickReplies =
                   map (\<lambda>qr. \<lparr>sqr_ContentType = ''text'', sqr_Title = qr_Title qr,
                               sqr_Payload = qr_Payload qr\<rparr>) (QuickReplies msg)\<rparr>,
              MessagingType = ''RESPONSE''\<rparr>"
    have unfold: "Send_fb env msg creds =
        (case HttpPost env url req of
           Inl err \<Rightarrow>
             ((\<lparr>Success = False, sr_ChannelMessageID = '''', Error = Some err\<rparr>, None),
              [(url, req)])
         | Inr resp \<Rightarrow>
             if StatusCode resp \<noteq> 200
             then ((\<lparr>Success = False, sr_ChannelMessageID = '''',
                     Error = Some (ErrFbApi (Body resp))\<rparr>, None), [(url, req)])
             else ((\<lparr>Success = True,
                     sr_ChannelMessageID = ResponseMessageID env (Body resp),
                     Error = None\<rparr>, None), [(url, req)]))"
      using Some False unfolding Send_fb_def Let_def url_def req_def
      by (simp cong: sum.case_cong if_cong)
    show ?thesis
    proof (cases "HttpPost env url req")
      case (Inl e)
      then show ?thesis using transport[OF Some False Inl] unfold by simp
    next
      case (Inr resp)
      show ?thesis
      proof (cases "StatusCode resp = 200")
        case True
        then show ?thesis using accepted[OF Some False Inr True] unfold Inr by simp
      next
        case ne: False
        then show ?thesis using refused[OF Some False Inr ne] unfold Inr by simp
      qed
    qed
  qed
qed

lemma Send_fb_error_nil: "snd (fst (Send_fb env msg creds)) = None"
  by (cases rule: Send_fb_cases[of creds env msg]) simp_all

lemma Send_mock_error_nil: "snd (fst (Send_mock now sent msg creds)) = None"
  by (simp add: Send_mock_def Let_def)

lemma Send_fb_failure_has_error:
  "\<not> Success (fst (fst (Send_fb env msg creds))) \<Longrightarrow>
   Error (fst (fst (Send_fb env msg creds))) \<noteq> None"
  by (cases rule: Send_fb_cases[of creds env msg]) simp_all

lemma Send_mock_failure_has_error:
  "\<not> Success (fst (fst (Send_mock now sent msg creds))) \<Longrightarrow>
   Error (fst (fst (Send_mock now sent msg creds))) \<noteq> None"
  by (simp add: Send_mock_def Let_def split: if_splits)

lemma Send_fb_provider_failure:
  assumes "creds ''page_access_token'' = Some token" "token \<noteq> ''''"
    and "snd (Send_fb env msg creds) = [(url, req)]"
    and "\<forall>resp. HttpPost env url req = Inr resp \<longrightarrow> StatusCode resp \<noteq> 200"
  shows "\<not> Success (fst (fst (Send_fb env msg creds)))"
  using assms by (cases rule: Send_fb_cases[of creds env msg]) auto

text \<open>
  C6. \<open>Send\<close> of the Facebook and of the mock adapter always returns a nil function
  error. With a missing or empty access token the Facebook adapter returns a result with
  \<open>Success = False\<close> and the error set, and posts nothing to the provider. With a token,
  when the provider does not answer the request with status 200 (a transport error or a
  failure response), the result has \<open>Success = False\<close> and the error set. A result of
  either adapter that is not a success carries an error.
\<close>

theorem Send_reports_failure_in_result:
  "snd (fst (Send_fb env msg creds)) = None
   \<and> snd (fst (Send_mock now sent msg creds)) = None
   \<and> ((creds ''page_access_token'' = None \<or> creds ''page_access_token'' = Some '''') \<longrightarrow>
        Send_fb env msg creds =
          ((\<lparr>Success = False, sr_ChannelMessageID = '''', Error = Some ErrMissingToken\<rparr>, None),
           []))
   \<and> (\<forall>token url req. creds ''page_access_token'' = Some token \<and> token \<noteq> '''' \<and>
         snd (Send_fb env msg creds) = [(url, req)] \<and>
         (\<forall>resp. HttpPost env url req = Inr resp \<longrightarrow> StatusCode resp \<noteq> 200) \<longrightarrow>
           \<not> Success (fst (fst (Send_fb env msg creds))) \<and>
           Error (fst (fst (Send_fb env msg creds))) \<noteq> None)
   \<and> (\<not> Success (fst (fst (Send_fb env msg creds))) \<longrightarrow>
         Error (fst (fst (Send_fb env msg creds))) \<noteq> None)
   \<and> (\<not> Success (fst (fst (Send_mock now sent msg creds))) \<longrightarrow>
         Error (fst (fst (Send_mock now sent msg creds))) \<noteq> None)"
proof (intro conjI allI impI)
  show "snd (fst (Send_fb env msg creds)) = None" by (rule Send_fb_error_nil)
  show "snd (fst (Send_mock now sent msg creds)) = None" by (rule Send_mock_error_nil)
  show "Send_fb env msg creds =
          ((\<lparr>Success = False, sr_ChannelMessageID = '''', Error = Some ErrMissingToken\<rparr>, None),
           [])"
    if "creds ''page_access_token'' = None \<or> creds ''page_access_token'' = Some ''''"
    using that by (auto simp: Send_fb_def)
  show "\<not> Success (fst (fst (Send_fb env msg creds)))"
    if "creds ''page_access_token'' = Some token \<and> token \<noteq> '''' \<and>
         snd (Send_fb env msg creds) = [(url, req)] \<and>
         (\<forall>resp. HttpPost env url req = Inr resp \<longrightarrow> StatusCode resp \<noteq> 200)"
    for token url req
    using that Send_fb_provider_failure[of creds token env msg url req] by blast
  then show "Error (fst (fst (Send_fb env msg creds))) \<noteq> None"
    if "creds ''page_access_token'' = Some token \<and> token \<noteq> '''' \<and>
         snd (Send_fb env msg creds) = [(url, req)] \<and>
         (\<forall>resp. HttpPost env url req = Inr resp \<longrightarrow> StatusCode resp \<noteq> 200)"
    for token url req
    using that Send_fb_failure_has_error[of env msg creds] by blast
  show "Error (fst (fst (Send_fb env msg creds))) \<noteq> None"
    if "\<not> Success (fst (fst (Send_fb env msg creds)))"
    using that by (rule Send_fb_failure_has_error)
  show "Error (fst (fst (Send_mock now sent msg creds))) \<noteq> None"
    if "\<not> Success (fst (fst (Send_mock now sent msg creds)))"
    using that by (rule Send_mock_failure_has_error)
qed

text \<open>A call without credentials, and a call with a token that the provider refuses with
  status 500.\<close>

theorem Send_reports_failure_in_result_witness:
  "Send_fb example_env example_outbound Map.empty =
     ((\<lparr>Success = False, sr_ChannelMessageID = '''', Error = Some ErrMissingToken\<rparr>, None), [])
   \<and> \<not> Success (fst (fst (Send_fb example_env example_outbound
                               [''page_access_token'' \<mapsto> ''tok''])))
   \<and> Error (fst (fst (Send_fb example_env example_outbound
                          [''page_access_token'' \<mapsto> ''tok''])))
       = Some (ErrFbApi ''token expired'')
   \<and> snd (fst (Send_fb example_env example_outbound [''page_access_token'' \<mapsto> ''tok''])) = None
   \<and> length (snd (Send_fb example_env example_outbound [''page_access_token'' \<mapsto> ''tok''])) = 1"
  using Send_reports_failure_in_result[of example_env example_outbound Map.empty 0 "[]"]
    Send_reports_failure_in_result
      [of example_env example_outbound "[''page_access_token'' \<mapsto> ''tok'']" 0 "[]"]
  by (simp add: Send_fb_def example_env_def example_outbound_def Let_def)

text \<open>The mock adapter rejects a payload without a sender identifier, and the message it
  returns carries the sender identifier of the payload.\<close>

lemma Normalize_mock_sender:
  assumes "Normalize_mock now acct p = Inr m"
  shows "SenderID m \<noteq> '''' \<and> map_of p ''sender_id'' = Some (JString (SenderID m))"
proof (cases "map_of p ''sender_id''")
  case None
  then show ?thesis using assms by (simp add: Normalize_mock_def)
next
  case (Some j)
  then show ?thesis using assms
    by (cases j) (auto simp add: Normalize_mock_def Let_def split: prod.splits if_splits)
qed

text \<open>
  C7. The claim says that every adapter rejects a payload without a sender identifier and
  never returns a message with an empty \<open>SenderID\<close>. The mock adapter does
  (\<open>Normalize_mock_sender\<close>); the Facebook adapter validates the object type and the
  presence of a messaging event only: for a page webhook whose messaging event has no
  \<open>sender\<close>, it returns a message with the empty sender identifier and no error.
\<close>

theorem Normalize_fb_accepts_missing_sender:
  "Normalize_fb 7 fb_payload_without_sender =
     Inr \<lparr>in_ChannelType = ''facebook'', in_ChannelMessageID = ''m1'', SenderID = '''',
          SenderName = '''', SenderAvatar = '''', in_RecipientID = ''page-1'',
          in_ThreadID = '''', in_Content = ''hi'', in_ContentType = ''text'',
          in_Attachments = [], Timestamp = 1700000000000000000,
          RawPayload = fb_payload_without_sender\<rparr>"
  by (simp add: Normalize_fb_def fb_payload_without_sender_def json_eval Let_def)

section \<open>The database layer\<close>

lemma first_by_mem: "first_by p xs = Some m \<Longrightarrow> m \<in> set xs"
  by (induction xs arbitrary: m) (auto split: option.splits if_splits)

lemma first_by_None: "first_by p xs = None \<longleftrightarrow> xs = []"
  by (cases xs) (auto split: option.splits)





lemma db_call_ok: "faults w = [] \<Longrightarrow> db_call w = (False, w)"
  by (simp add: db_call_def)

lemma BeforeCreate_faults [simp]: "faults (snd (BeforeCreate b w)) = faults w"
  by (simp add: BeforeCreate_def uuid_New_def split: prod.splits)

lemma BeforeCreate_ID:
  "ID (fst (BeforeCreate b w)) \<noteq> uuid_Nil"
  by (simp add: BeforeCreate_def uuid_New_def uuid_Nil_def split: prod.splits)

lemma gorm_First_ok:
  "faults w = [] \<Longrightarrow>
   gorm_First p cond t w =
     (case first_by p (filter (\<lambda>r. DeletedAt r = None \<and> cond r) t) of
        None \<Rightarrow> (Inl ErrRecordNotFound, w)
      | Some r \<Rightarrow> (Inr r, w))"
  by (simp add: gorm_First_def db_call_ok)

lemma gorm_Create_ok:
  assumes "faults w = []"
  shows "gorm_Create t row w =
     (let row1 = fst (BeforeCreate row w); w1 = snd (BeforeCreate row w)
      in if ID row1 \<in> set (map ID t) then ((Some ErrDuplicateKey, row1, t), w1)
         else ((None, row1\<lparr>CreatedAt := clock w1, UpdatedAt := clock w1\<rparr>,
                t @ [row1\<lparr>CreatedAt := clock w1, UpdatedAt := clock w1\<rparr>]), w1))"
proof -
  obtain row1 w1 where bc: "BeforeCreate row w = (row1, w1)"
    by (cases "BeforeCreate row w")
  have "faults w1 = []" using assms BeforeCreate_faults[of row w] bc by simp
  then have "db_call w1 = (False, w1)" by (rule db_call_ok)
  then show ?thesis
    by (simp add: gorm_Create_def bc Let_def)
qed


section \<open>What each operation leaves unchanged\<close>

lemma db_call_frame [simp]:
  "participants (snd (db_call w)) = participants w"
  "conversations (snd (db_call w)) = conversations w"
  "messages (snd (db_call w)) = messages w"
  "rules (snd (db_call w)) = rules w"
  "channel_accounts (snd (db_call w)) = channel_accounts w"
  "registry (snd (db_call w)) = registry w"
  "sentMessages (snd (db_call w)) = sentMessages w"
  "http_log (snd (db_call w)) = http_log w"
  "bot_calls (snd (db_call w)) = bot_calls w"
  "clock (snd (db_call w)) = clock w"
  "uuid_gen (snd (db_call w)) = uuid_gen w"
  "uuid_used (snd (db_call w)) = uuid_used w"
  by (simp_all add: db_call_def case_prod_beta split: list.splits)

lemma uuid_New_frame [simp]:
  "participants (snd (uuid_New w)) = participants w"
  "conversations (snd (uuid_New w)) = conversations w"
  "messages (snd (uuid_New w)) = messages w"
  "rules (snd (uuid_New w)) = rules w"
  "channel_accounts (snd (uuid_New w)) = channel_accounts w"
  "registry (snd (uuid_New w)) = registry w"
  "sentMessages (snd (uuid_New w)) = sentMessages w"
  "http_log (snd (uuid_New w)) = http_log w"
  "bot_calls (snd (uuid_New w)) = bot_calls w"
  "clock (snd (uuid_New w)) = clock w"
  "uuid_gen (snd (uuid_New w)) = uuid_gen w"
  "faults (snd (uuid_New w)) = faults w"
  by (simp_all add: uuid_New_def case_prod_beta)

lemma BeforeCreate_frame [simp]:
  "participants (snd (BeforeCreate b w)) = participants w"
  "conversations (snd (BeforeCreate b w)) = conversations w"
  "messages (snd (BeforeCreate b w)) = messages w"
  "rules (snd (BeforeCreate b w)) = rules w"
  "channel_accounts (snd (BeforeCreate b w)) = channel_accounts w"
  "registry (snd (BeforeCreate b w)) = registry w"
  "sentMessages (snd (BeforeCreate b w)) = sentMessages w"
  "http_log (snd (BeforeCreate b w)) = http_log w"
  "bot_calls (snd (BeforeCreate b w)) = bot_calls w"
  "clock (snd (BeforeCreate b w)) = clock w"
  "uuid_gen (snd (BeforeCreate b w)) = uuid_gen w"
  by (simp_all add: BeforeCreate_def case_prod_beta)

lemma gorm_Create_frame [simp]:
  "participants (snd (gorm_Create t r w)) = participants w"
  "conversations (snd (gorm_Create t r w)) = conversations w"
  "messages (snd (gorm_Create t r w)) = messages w"
  "rules (snd (gorm_Create t r w)) = rules w"
  "channel_accounts (snd (gorm_Create t r w)) = channel_accounts w"
  "registry (snd (gorm_Create t r w)) = registry w"
  "sentMessages (snd (gorm_Create t r w)) = sentMessages w"
  "http_log (snd (gorm_Create t r w)) = http_log w"
  "bot_calls (snd (gorm_Create t r w)) = bot_calls w"
  "clock (snd (gorm_Create t r w)) = clock w"
  "uuid_gen (snd (gorm_Create t r w)) = uuid_gen w"
  by (simp_all add: gorm_Create_def Let_def case_prod_beta split: if_splits)

lemma gorm_Save_frame [simp]:
  "participants (snd (gorm_Save t r w)) = participants w"
  "conversations (snd (gorm_Save t r w)) = conversations w"
  "messages (snd (gorm_Save t r w)) = messages w"
  "rules (snd (gorm_Save t r w)) = rules w"
  "channel_accounts (snd (gorm_Save t r w)) = channel_accounts w"
  "registry (snd (gorm_Save t r w)) = registry w"
  "sentMessages (snd (gorm_Save t r w)) = sentMessages w"
  "http_log (snd (gorm_Save t r w)) = http_log w"
  "bot_calls (snd (gorm_Save t r w)) = bot_calls w"
  "clock (snd (gorm_Save t r w)) = clock w"
  "uuid_gen (snd (gorm_Save t r w)) = uuid_gen w"
  by (simp_all add: gorm_Save_def Let_def case_prod_beta split: if_splits)

lemma gorm_First_frame [simp]:
  "participants (snd (gorm_First p c t w)) = participants w"
  "conversations (snd (gorm_First p c t w)) = conversations w"
  "messages (snd (gorm_First p c t w)) = messages w"
  "rules (snd (gorm_First p c t w)) = rules w"
  "channel_accounts (snd (gorm_First p c t w)) = channel_accounts w"
  "registry (snd (gorm_First p c t w)) = registry w"
  "sentMessages (snd (gorm_First p c t w)) = sentMessages w"
  "http_log (snd (gorm_First p c t w)) = http_log w"
  "bot_calls (snd (gorm_First p c t w)) = bot_calls w"
  "clock (snd (gorm_First p c t w)) = clock w"
  "uuid_gen (snd (gorm_First p c t w)) = uuid_gen w"
  "uuid_used (snd (gorm_First p c t w)) = uuid_used w"
  by (simp_all add: gorm_First_def Let_def case_prod_beta split: option.splits)

lemma participant_FindByChannelUserID_frame [simp]:
  "participants (snd (participant_FindByChannelUserID a u w)) = participants w"
  "conversations (snd (participant_FindByChannelUserID a u w)) = conversations w"
  "messages (snd (participant_FindByChannelUserID a u w)) = messages w"
  "rules (snd (participant_FindByChannelUserID a u w)) = rules w"
  "channel_accounts (snd (participant_FindByChannelUserID a u w)) = channel_accounts w"
  "registry (snd (participant_FindByChannelUserID a u w)) = registry w"
  "sentMessages (snd (participant_FindByChannelUserID a u w)) = sentMessages w"
  "http_log (snd (participant_FindByChannelUserID a u w)) = http_log w"
  "bot_calls (snd (participant_FindByChannelUserID a u w)) = bot_calls w"
  "clock (snd (participant_FindByChannelUserID a u w)) = clock w"
  "uuid_gen (snd (participant_FindByChannelUserID a u w)) = uuid_gen w"
  "uuid_used (snd (participant_FindByChannelUserID a u w)) = uuid_used w"
  by (simp_all add: participant_FindByChannelUserID_def case_prod_beta)

lemma participant_FindOrCreate_frame [simp]:
  "conversations (snd (participant_FindOrCreate p w)) = conversations w"
  "messages (snd (participant_FindOrCreate p w)) = messages w"
  "rules (snd (participant_FindOrCreate p w)) = rules w"
  "channel_accounts (snd (participant_FindOrCreate p w)) = channel_accounts w"
  "registry (snd (participant_FindOrCreate p w)) = registry w"
  "sentMessages (snd (participant_FindOrCreate p w)) = sentMessages w"
  "http_log (snd (participant_FindOrCreate p w)) = http_log w"
  "bot_calls (snd (participant_FindOrCreate p w)) = bot_calls w"
  "clock (snd (participant_FindOrCreate p w)) = clock w"
  "uuid_gen (snd (participant_FindOrCreate p w)) = uuid_gen w"
  by (simp_all add: participant_FindOrCreate_def case_prod_beta split: sum.splits option.splits)

lemma conversation_FindOpenByParticipant_frame [simp]:
  "participants (snd (conversation_FindOpenByParticipant pid w)) = participants w"
  "conversations (snd (conversation_FindOpenByParticipant pid w)) = conversations w"
  "messages (snd (conversation_FindOpenByParticipant pid w)) = messages w"
  "rules (snd (conversation_FindOpenByParticipant pid w)) = rules w"
  "channel_accounts (snd (conversation_FindOpenByParticipant pid w)) = channel_accounts w"
  "registry (snd (conversation_FindOpenByParticipant pid w)) = registry w"
  "sentMessages (snd (conversation_FindOpenByParticipant pid w)) = sentMessages w"
  "http_log (snd (conversation_FindOpenByParticipant pid w)) = http_log w"
  "bot_calls (snd (conversation_FindOpenByParticipant pid w)) = bot_calls w"
  "clock (snd (conversation_FindOpenByParticipant pid w)) = clock w"
  "uuid_gen (snd (conversation_FindOpenByParticipant pid w)) = uuid_gen w"
  "uuid_used (snd (conversation_FindOpenByParticipant pid w)) = uuid_used w"
  by (simp_all add: conversation_FindOpenByParticipant_def case_prod_beta)

lemma conversation_FindOrCreate_frame [simp]:
  "participants (snd (conversation_FindOrCreate c w)) = participants w"
  "messages (snd (conversation_FindOrCreate c w)) = messages w"
  "rules (snd (conversation_FindOrCreate c w)) = rules w"
  "channel_accounts (snd (conversation_FindOrCreate c w)) = channel_accounts w"
  "registry (snd (conversation_FindOrCreate c w)) = registry w"
  "sentMessages (snd (conversation_FindOrCreate c w)) = sentMessages w"
  "http_log (snd (conversation_FindOrCreate c w)) = http_log w"
  "bot_calls (snd (conversation_FindOrCreate c w)) = bot_calls w"
  "clock (snd (conversation_FindOrCreate c w)) = clock w"
  "uuid_gen (snd (conversation_FindOrCreate c w)) = uuid_gen w"
  by (simp_all add: conversation_FindOrCreate_def case_prod_beta split: sum.splits option.splits)

lemma conversation_Update_frame [simp]:
  "participants (snd (conversation_Update c w)) = participants w"
  "messages (snd (conversation_Update c w)) = messages w"
  "rules (snd (conversation_Update c w)) = rules w"
  "channel_accounts (snd (conversation_Update c w)) = channel_accounts w"
  "registry (snd (conversation_Update c w)) = registry w"
  "sentMessages (snd (conversation_Update c w)) = sentMessages w"
  "http_log (snd (conversation_Update c w)) = http_log w"
  "bot_calls (snd (conversation_Update c w)) = bot_calls w"
  "clock (snd (conversation_Update c w)) = clock w"
  "uuid_gen (snd (conversation_Update c w)) = uuid_gen w"
  by (simp_all add: conversation_Update_def case_prod_beta)

lemma message_Create_frame [simp]:
  "participants (snd (message_Create m w)) = participants w"
  "conversations (snd (message_Create m w)) = conversations w"
  "rules (snd (message_Create m w)) = rules w"
  "channel_accounts (snd (message_Create m w)) = channel_accounts w"
  "registry (snd (message_Create m w)) = registry w"
  "sentMessages (snd (message_Create m w)) = sentMessages w"
  "http_log (snd (message_Create m w)) = http_log w"
  "bot_calls (snd (message_Create m w)) = bot_calls w"
  "clock (snd (message_Create m w)) = clock w"
  "uuid_gen (snd (message_Create m w)) = uuid_gen w"
  by (simp_all add: message_Create_def case_prod_beta)

lemma message_Update_frame [simp]:
  "participants (snd (message_Update m w)) = participants w"
  "conversations (snd (message_Update m w)) = conversations w"
  "rules (snd (message_Update m w)) = rules w"
  "channel_accounts (snd (message_Update m w)) = channel_accounts w"
  "registry (snd (message_Update m w)) = registry w"
  "sentMessages (snd (message_Update m w)) = sentMessages w"
  "http_log (snd (message_Update m w)) = http_log w"
  "bot_calls (snd (message_Update m w)) = bot_calls w"
  "clock (snd (message_Update m w)) = clock w"
  "uuid_gen (snd (message_Update m w)) = uuid_gen w"
  by (simp_all add: message_Update_def case_prod_beta)

lemma rule_FindActiveByWorkspace_frame [simp]:
  "participants (snd (rule_FindActiveByWorkspace ws w)) = participants w"
  "conversations (snd (rule_FindActiveByWorkspace ws w)) = conversations w"
  "messages (snd (rule_FindActiveByWorkspace ws w)) = messages w"
  "rules (snd (rule_FindActiveByWorkspace ws w)) = rules w"
  "channel_accounts (snd (rule_FindActiveByWorkspace ws w)) = channel_accounts w"
  "registry (snd (rule_FindActiveByWorkspace ws w)) = registry w"
  "sentMessages (snd (rule_FindActiveByWorkspace ws w)) = sentMessages w"
  "http_log (snd (rule_FindActiveByWorkspace ws w)) = http_log w"
  "bot_calls (snd (rule_FindActiveByWorkspace ws w)) = bot_calls w"
  "clock (snd (rule_FindActiveByWorkspace ws w)) = clock w"
  "uuid_gen (snd (rule_FindActiveByWorkspace ws w)) = uuid_gen w"
  "uuid_used (snd (rule_FindActiveByWorkspace ws w)) = uuid_used w"
  by (simp_all add: rule_FindActiveByWorkspace_def Let_def case_prod_beta split: if_splits)

lemma rule_IncrementHitCount_frame [simp]:
  "participants (snd (rule_IncrementHitCount i w)) = participants w"
  "conversations (snd (rule_IncrementHitCount i w)) = conversations w"
  "messages (snd (rule_IncrementHitCount i w)) = messages w"
  "channel_accounts (snd (rule_IncrementHitCount i w)) = channel_accounts w"
  "registry (snd (rule_IncrementHitCount i w)) = registry w"
  "sentMessages (snd (rule_IncrementHitCount i w)) = sentMessages w"
  "http_log (snd (rule_IncrementHitCount i w)) = http_log w"
  "bot_calls (snd (rule_IncrementHitCount i w)) = bot_calls w"
  "clock (snd (rule_IncrementHitCount i w)) = clock w"
  "uuid_gen (snd (rule_IncrementHitCount i w)) = uuid_gen w"
  "uuid_used (snd (rule_IncrementHitCount i w)) = uuid_used w"
  by (simp_all add: rule_IncrementHitCount_def Let_def case_prod_beta split: if_splits)

lemma channelAccount_FindByID_frame [simp]:
  "participants (snd (channelAccount_FindByID i w)) = participants w"
  "conversations (snd (channelAccount_FindByID i w)) = conversations w"
  "messages (snd (channelAccount_FindByID i w)) = messages w"
  "rules (snd (channelAccount_FindByID i w)) = rules w"
  "channel_accounts (snd (channelAccount_FindByID i w)) = channel_accounts w"
  "registry (snd (channelAccount_FindByID i w)) = registry w"
  "sentMessages (snd (channelAccount_FindByID i w)) = sentMessages w"
  "http_log (snd (channelAccount_FindByID i w)) = http_log w"
  "bot_calls (snd (channelAccount_FindByID i w)) = bot_calls w"
  "clock (snd (channelAccount_FindByID i w)) = clock w"
  "uuid_gen (snd (channelAccount_FindByID i w)) = uuid_gen w"
  "uuid_used (snd (channelAccount_FindByID i w)) = uuid_used w"
  by (simp_all add: channelAccount_FindByID_def case_prod_beta)

lemma Process_frame [simp]:
  "participants (snd (Process env ws rcp content w)) = participants w"
  "conversations (snd (Process env ws rcp content w)) = conversations w"
  "messages (snd (Process env ws rcp content w)) = messages w"
  "channel_accounts (snd (Process env ws rcp content w)) = channel_accounts w"
  "registry (snd (Process env ws rcp content w)) = registry w"
  "sentMessages (snd (Process env ws rcp content w)) = sentMessages w"
  "http_log (snd (Process env ws rcp content w)) = http_log w"
  "clock (snd (Process env ws rcp content w)) = clock w"
  "uuid_gen (snd (Process env ws rcp content w)) = uuid_gen w"
  "uuid_used (snd (Process env ws rcp content w)) = uuid_used w"
  by (simp_all add: Process_def Let_def case_prod_beta split: sum.splits option.splits if_splits)

lemma findOrCreateParticipant_frame [simp]:
  "conversations (snd (findOrCreateParticipant ws acct inb w)) = conversations w"
  "messages (snd (findOrCreateParticipant ws acct inb w)) = messages w"
  "rules (snd (findOrCreateParticipant ws acct inb w)) = rules w"
  "channel_accounts (snd (findOrCreateParticipant ws acct inb w)) = channel_accounts w"
  "registry (snd (findOrCreateParticipant ws acct inb w)) = registry w"
  "sentMessages (snd (findOrCreateParticipant ws acct inb w)) = sentMessages w"
  "http_log (snd (findOrCreateParticipant ws acct inb w)) = http_log w"
  "bot_calls (snd (findOrCreateParticipant ws acct inb w)) = bot_calls w"
  "clock (snd (findOrCreateParticipant ws acct inb w)) = clock w"
  "uuid_gen (snd (findOrCreateParticipant ws acct inb w)) = uuid_gen w"
  by (simp_all add: findOrCreateParticipant_def Let_def case_prod_beta)

lemma findOrCreateConversation_frame [simp]:
  "participants (snd (findOrCreateConversation ws acct pid w)) = participants w"
  "messages (snd (findOrCreateConversation ws acct pid w)) = messages w"
  "rules (snd (findOrCreateConversation ws acct pid w)) = rules w"
  "channel_accounts (snd (findOrCreateConversation ws acct pid w)) = channel_accounts w"
  "registry (snd (findOrCreateConversation ws acct pid w)) = registry w"
  "sentMessages (snd (findOrCreateConversation ws acct pid w)) = sentMessages w"
  "http_log (snd (findOrCreateConversation ws acct pid w)) = http_log w"
  "bot_calls (snd (findOrCreateConversation ws acct pid w)) = bot_calls w"
  "clock (snd (findOrCreateConversation ws acct pid w)) = clock w"
  "uuid_gen (snd (findOrCreateConversation ws acct pid w)) = uuid_gen w"
  by (simp_all add: findOrCreateConversation_def Let_def case_prod_beta)

lemma saveMessage_frame [simp]:
  "participants (snd (saveMessage cid inb w)) = participants w"
  "conversations (snd (saveMessage cid inb w)) = conversations w"
  "rules (snd (saveMessage cid inb w)) = rules w"
  "channel_accounts (snd (saveMessage cid inb w)) = channel_accounts w"
  "registry (snd (saveMessage cid inb w)) = registry w"
  "sentMessages (snd (saveMessage cid inb w)) = sentMessages w"
  "http_log (snd (saveMessage cid inb w)) = http_log w"
  "bot_calls (snd (saveMessage cid inb w)) = bot_calls w"
  "clock (snd (saveMessage cid inb w)) = clock w"
  "uuid_gen (snd (saveMessage cid inb w)) = uuid_gen w"
  by (simp_all add: saveMessage_def Let_def case_prod_beta split: option.splits)

lemma updateConversationLastMessage_frame [simp]:
  "participants (snd (updateConversationLastMessage c inb w)) = participants w"
  "messages (snd (updateConversationLastMessage c inb w)) = messages w"
  "rules (snd (updateConversationLastMessage c inb w)) = rules w"
  "channel_accounts (snd (updateConversationLastMessage c inb w)) = channel_accounts w"
  "registry (snd (updateConversationLastMessage c inb w)) = registry w"
  "sentMessages (snd (updateConversationLastMessage c inb w)) = sentMessages w"
  "http_log (snd (updateConversationLastMessage c inb w)) = http_log w"
  "bot_calls (snd (updateConversationLastMessage c inb w)) = bot_calls w"
  "clock (snd (updateConversationLastMessage c inb w)) = clock w"
  "uuid_gen (snd (updateConversationLastMessage c inb w)) = uuid_gen w"
  by (simp_all add: updateConversationLastMessage_def case_prod_beta)

lemma Channel_Send_frame [simp]:
  "participants (snd (Channel_Send env ch msg creds w)) = participants w"
  "conversations (snd (Channel_Send env ch msg creds w)) = conversations w"
  "messages (snd (Channel_Send env ch msg creds w)) = messages w"
  "rules (snd (Channel_Send env ch msg creds w)) = rules w"
  "channel_accounts (snd (Channel_Send env ch msg creds w)) = channel_accounts w"
  "registry (snd (Channel_Send env ch msg creds w)) = registry w"
  "bot_calls (snd (Channel_Send env ch msg creds w)) = bot_calls w"
  "clock (snd (Channel_Send env ch msg creds w)) = clock w"
  "uuid_gen (snd (Channel_Send env ch msg creds w)) = uuid_gen w"
  "uuid_used (snd (Channel_Send env ch msg creds w)) = uuid_used w"
  "faults (snd (Channel_Send env ch msg creds w)) = faults w"
  by (simp_all add: Channel_Send_def case_prod_beta split: Channel.splits)

lemma send_reply_frame [simp]:
  "participants (snd (send_reply env acct conv inb resp response res w)) = participants w"
  "conversations (snd (send_reply env acct conv inb resp response res w)) = conversations w"
  "rules (snd (send_reply env acct conv inb resp response res w)) = rules w"
  "channel_accounts (snd (send_reply env acct conv inb resp response res w)) = channel_accounts w"
  "registry (snd (send_reply env acct conv inb resp response res w)) = registry w"
  "bot_calls (snd (send_reply env acct conv inb resp response res w)) = bot_calls w"
  "clock (snd (send_reply env acct conv inb resp response res w)) = clock w"
  "uuid_gen (snd (send_reply env acct conv inb resp response res w)) = uuid_gen w"
  by (simp_all add: send_reply_def Let_def case_prod_beta split: sum.splits option.splits if_splits)

lemma processBotResponse_frame [simp]:
  "participants (snd (processBotResponse env ws acct conv inb m w)) = participants w"
  "channel_accounts (snd (processBotResponse env ws acct conv inb m w)) = channel_accounts w"
  "registry (snd (processBotResponse env ws acct conv inb m w)) = registry w"
  "clock (snd (processBotResponse env ws acct conv inb m w)) = clock w"
  "uuid_gen (snd (processBotResponse env ws acct conv inb m w)) = uuid_gen w"
  by (simp_all add: processBotResponse_def Let_def case_prod_beta split: sum.splits option.splits if_splits)

section \<open>Runs without database failures\<close>

lemma db_call_no_faults [simp]:
  "faults w = [] \<Longrightarrow> faults (snd (db_call w)) = []"
  by (simp add: db_call_def case_prod_beta)

lemma gorm_Create_no_faults [simp]:
  "faults w = [] \<Longrightarrow> faults (snd (gorm_Create t r w)) = []"
  by (simp add: gorm_Create_def Let_def case_prod_beta split: if_splits)

lemma gorm_Save_no_faults [simp]:
  "faults w = [] \<Longrightarrow> faults (snd (gorm_Save t r w)) = []"
  by (simp add: gorm_Save_def Let_def case_prod_beta split: if_splits)

lemma gorm_First_no_faults [simp]:
  "faults w = [] \<Longrightarrow> faults (snd (gorm_First p c t w)) = []"
  by (simp add: gorm_First_def Let_def case_prod_beta split: option.splits)

lemma participant_FindByChannelUserID_no_faults [simp]:
  "faults w = [] \<Longrightarrow> faults (snd (participant_FindByChannelUserID a u w)) = []"
  by (simp add: participant_FindByChannelUserID_def case_prod_beta)

lemma participant_FindOrCreate_no_faults [simp]:
  "faults w = [] \<Longrightarrow> faults (snd (participant_FindOrCreate p w)) = []"
  by (simp add: participant_FindOrCreate_def case_prod_beta split: sum.splits option.splits)

lemma conversation_FindOpenByParticipant_no_faults [simp]:
  "faults w = [] \<Longrightarrow> faults (snd (conversation_FindOpenByParticipant pid w)) = []"
  by (simp add: conversation_FindOpenByParticipant_def case_prod_beta)

lemma conversation_FindOrCreate_no_faults [simp]:
  "faults w = [] \<Longrightarrow> faults (snd (conversation_FindOrCreate c w)) = []"
  by (simp add: conversation_FindOrCreate_def case_prod_beta split: sum.splits option.splits)

lemma conversation_Update_no_faults [simp]:
  "faults w = [] \<Longrightarrow> faults (snd (conversation_Update c w)) = []"
  by (simp add: conversation_Update_def case_prod_beta)

lemma message_Create_no_faults [simp]:
  "faults w = [] \<Longrightarrow> faults (snd (message_Create m w)) = []"
  by (simp add: message_Create_def case_prod_beta)

lemma message_Update_no_faults [simp]:
  "faults w = [] \<Longrightarrow> faults (snd (message_Update m w)) = []"
  by (simp add: message_Update_def case_prod_beta)

lemma rule_FindActiveByWorkspace_no_faults [simp]:
  "faults w = [] \<Longrightarrow> faults (snd (rule_FindActiveByWorkspace ws w)) = []"
  by (simp add: rule_FindActiveByWorkspace_def Let_def case_prod_beta split: if_splits)

lemma rule_IncrementHitCount_no_faults [simp]:
  "faults w = [] \<Longrightarrow> faults (snd (rule_IncrementHitCount i w)) = []"
  by (simp add: rule_IncrementHitCount_def Let_def case_prod_beta split: if_splits)

lemma channelAccount_FindByID_no_faults [simp]:
  "faults w = [] \<Longrightarrow> faults (snd (channelAccount_FindByID i w)) = []"
  by (simp add: channelAccount_FindByID_def case_prod_beta)

lemma Process_no_faults [simp]:
  "faults w = [] \<Longrightarrow> faults (snd (Process env ws rcp content w)) = []"
  by (simp add: Process_def Let_def case_prod_beta split: sum.splits option.splits if_splits)

lemma findOrCreateParticipant_no_faults [simp]:
  "faults w = [] \<Longrightarrow> faults (snd (findOrCreateParticipant ws acct inb w)) = []"
  by (simp add: findOrCreateParticipant_def Let_def case_prod_beta)

lemma findOrCreateConversation_no_faults [simp]:
  "faults w = [] \<Longrightarrow> faults (snd (findOrCreateConversation ws acct pid w)) = []"
  by (simp add: findOrCreateConversation_def Let_def case_prod_beta)

lemma saveMessage_no_faults [simp]:
  "faults w = [] \<Longrightarrow> faults (snd (saveMessage cid inb w)) = []"
  by (simp add: saveMessage_def Let_def case_prod_beta split: option.splits)

lemma updateConversationLastMessage_no_faults [simp]:
  "faults w = [] \<Longrightarrow> faults (snd (updateConversationLastMessage c inb w)) = []"
  by (simp add: updateConversationLastMessage_def case_prod_beta)

lemma Channel_Send_no_faults [simp]:
  "faults w = [] \<Longrightarrow> faults (snd (Channel_Send env ch msg creds w)) = []"
  by (simp add: Channel_Send_def case_prod_beta split: Channel.splits)

lemma send_reply_no_faults [simp]:
  "faults w = [] \<Longrightarrow> faults (snd (send_reply env acct conv inb resp response res w)) = []"
  by (simp add: send_reply_def Let_def case_prod_beta split: sum.splits option.splits if_splits)

lemma processBotResponse_no_faults [simp]:
  "faults w = [] \<Longrightarrow> faults (snd (processBotResponse env ws acct conv inb m w)) = []"
  by (simp add: processBotResponse_def Let_def case_prod_beta split: sum.splits option.splits if_splits)

lemma ProcessInbound_no_faults [simp]:
  "faults w = [] \<Longrightarrow> faults (snd (ProcessInbound env ws acct inb w)) = []"
  by (simp add: ProcessInbound_def Let_def case_prod_beta split: sum.splits option.splits if_splits)

section \<open>Steps of a delivery\<close>

lemma ProcessInbound_InrE:
  assumes "ProcessInbound env ws acct inb w = (Inr r, w')"
  obtains p pc wa c cc wb m wc e c1 wd where
    "findOrCreateParticipant ws acct inb w = (Inr (p, pc), wa)"
    "findOrCreateConversation ws acct (ID p) wa = (Inr (c, cc), wb)"
    "saveMessage (ID c) inb wb = (Inr m, wc)"
    "updateConversationLastMessage c inb wc = ((e, c1), wd)"
    "res_ParticipantID r = ID p" "ParticipantCreated r = pc"
    "res_ConversationID r = ID c" "ConversationCreated r = cc" "MessageID r = ID m"
    "IsBotPaused c1 \<longrightarrow>
       w' = wd \<and> \<not> BotReplied r \<and> \<not> BotHandoff r \<and> ResponseSent r = None"
    "\<not> IsBotPaused c1 \<longrightarrow>
       (\<exists>br c2. processBotResponse env ws acct c1 inb m wd = ((br, c2), w') \<and>
          (case br of
             Inl _ \<Rightarrow> \<not> BotReplied r \<and> \<not> BotHandoff r \<and> ResponseSent r = None
           | Inr b \<Rightarrow> BotReplied r = bp_ShouldReply b \<and> BotHandoff r = bp_ShouldHandoff b \<and>
                      ResponseSent r = bp_ResponseSent b))"
  using assms unfolding ProcessInbound_def Let_def
  by (auto split: prod.splits sum.splits if_splits)

lemma ProcessInbound_InlE:
  assumes "ProcessInbound env ws acct inb w = (Inl err, w')"
  obtains
    (participant) "findOrCreateParticipant ws acct inb w = (Inl err, w')"
  | (conversation) p pc wa where
      "findOrCreateParticipant ws acct inb w = (Inr (p, pc), wa)"
      "findOrCreateConversation ws acct (ID p) wa = (Inl err, w')"
  | (message) p pc wa c cc wb where
      "findOrCreateParticipant ws acct inb w = (Inr (p, pc), wa)"
      "findOrCreateConversation ws acct (ID p) wa = (Inr (c, cc), wb)"
      "saveMessage (ID c) inb wb = (Inl err, w')"
  using assms unfolding ProcessInbound_def Let_def
  by (auto split: prod.splits sum.splits if_splits)

section \<open>Resolution of participant and conversation without database errors\<close>


lemma conversation_lookup_ok:
  "faults w = [] \<Longrightarrow>
   conversation_FindOpenByParticipant pid w =
     (case current_conversation w pid of
        None \<Rightarrow> (Inl ErrRecordNotFound, w)
      | Some c \<Rightarrow> (Inr c, w))"
proof -
  have "(\<lambda>r. DeletedAt r = None \<and> ParticipantID r = pid \<and>
             Status r \<in> set [StatusOpen, StatusPending, StatusBotPaused]) = active_for pid"
    by (auto simp: active_for_def fun_eq_iff)
  then show "faults w = [] \<Longrightarrow> ?thesis"
    by (simp add: conversation_FindOpenByParticipant_def current_conversation_def gorm_First_ok)
qed

lemma current_conversation_props:
  assumes "current_conversation w pid = Some c"
  shows "c \<in> set (conversations w)" "active_for pid c"
  using first_by_mem[OF assms[unfolded current_conversation_def]] by auto


lemma findOrCreateConversation_current:
  assumes "faults w = []"
    and "findOrCreateConversation ws acct pid w = (Inr (c, cc), w1)"
  shows "current_conversation w1 pid = Some c"
    and "cc \<longrightarrow> ID c \<noteq> uuid_Nil"
    and "\<not> cc \<longrightarrow> c \<in> set (conversations w)"
proof -
  show "current_conversation w1 pid = Some c"
  proof (cases "current_conversation w pid")
    case (Some q)
    with assms show ?thesis
      by (simp add: findOrCreateConversation_def conversation_FindOrCreate_def
          conversation_lookup_ok Let_def)
  next
    case None
    then have empty: "filter (active_for pid) (conversations w) = []"
      by (simp add: current_conversation_def first_by_None)
    from None assms show ?thesis
      by (auto simp add: findOrCreateConversation_def conversation_FindOrCreate_def
          conversation_lookup_ok gorm_Create_ok Let_def current_conversation_def empty
          BeforeCreate_def uuid_New_def uuid_Nil_def active_for_def
          split: if_splits)
  qed
  show "cc \<longrightarrow> ID c \<noteq> uuid_Nil"
    using assms
    by (cases "current_conversation w pid")
      (auto simp add: findOrCreateConversation_def conversation_FindOrCreate_def
        conversation_lookup_ok gorm_Create_ok Let_def
        BeforeCreate_def uuid_New_def uuid_Nil_def split: if_splits)
  show "\<not> cc \<longrightarrow> c \<in> set (conversations w)"
    using assms
    by (cases "current_conversation w pid")
      (auto simp add: findOrCreateConversation_def conversation_FindOrCreate_def
        conversation_lookup_ok gorm_Create_ok Let_def
        BeforeCreate_def uuid_New_def uuid_Nil_def split: if_splits
        dest: current_conversation_props)
qed


lemma current_conversation_cong:
  "conversations w' = conversations w \<Longrightarrow>
   current_conversation w' pid = current_conversation w pid"
  by (simp add: current_conversation_def)

lemma current_participant_cong:
  "participants w' = participants w \<Longrightarrow>
   current_participant w' acct uid = current_participant w acct uid"
  by (simp add: current_participant_def)



lemma PauseBot_keys [simp]:
  "ID (PauseBot c reason) = ID c" "CreatedAt (PauseBot c reason) = CreatedAt c"
  "Status (PauseBot c reason) = StatusBotPaused"
  "BotHandoffReason (c_Metadata (PauseBot c reason)) = reason"
  by (simp_all add: PauseBot_def)

lemma UpdateLastMessage_keys [simp]:
  "ID (UpdateLastMessage c content t) = ID c"
  "CreatedAt (UpdateLastMessage c content t) = CreatedAt c"
  "Status (UpdateLastMessage c content t) = Status c"
  by (simp_all add: UpdateLastMessage_def Let_def)

lemma processBotResponse_conversations:
  "conversations (snd (processBotResponse env ws acct conv inb m w)) =
     (case Process env ws (SenderID inb) (in_Content inb) w of
        (Inl _, _) \<Rightarrow> conversations w
      | (Inr b, w1) \<Rightarrow>
          if ShouldHandoff b
          then conversations (snd (conversation_Update (PauseBot conv (HandoffReason b)) w1))
          else conversations w)"
proof (cases "Process env ws (SenderID inb) (in_Content inb) w")
  case (Pair res w1)
  have c1: "conversations w1 = conversations w"
    using Process_frame(2)[of env ws "SenderID inb" "in_Content inb" w] Pair by simp
  show ?thesis
  proof (cases res)
    case (Inl err)
    with Pair c1 show ?thesis by (simp add: processBotResponse_def)
  next
    case (Inr b)
    with Pair c1 show ?thesis
      by (simp add: processBotResponse_def Let_def case_prod_beta split: option.splits)
  qed
qed










section \<open>Pausing the bot\<close>

lemma gorm_Save_row:
  fixes row :: Conversation
  shows "Status (fst (snd (fst (gorm_Save t row w)))) = Status row"
    and "c_Metadata (fst (snd (fst (gorm_Save t row w)))) = c_Metadata row"
  by (simp_all add: gorm_Save_def gorm_Create_def BeforeCreate_def Let_def case_prod_beta)

lemma conversation_Update_row:
  "Status (snd (fst (conversation_Update c w))) = Status c"
  "c_Metadata (snd (fst (conversation_Update c w))) = c_Metadata c"
  using gorm_Save_row[of "conversations w" c w]
  by (simp_all add: conversation_Update_def case_prod_beta)

lemma updateConversationLastMessage_status:
  assumes "updateConversationLastMessage c inb w = ((e, c1), w')"
  shows "Status c1 = Status c"
  using conversation_Update_row(1)
          [of "UpdateLastMessage c (in_Content inb) (Timestamp inb)" w] assms
  by (simp add: updateConversationLastMessage_def)

lemma conversation_Update_stored:
  assumes "\<not> fst (db_call w)" "ID c \<noteq> uuid_Nil"
  shows "\<exists>row \<in> set (conversations (snd (conversation_Update c w))).
           ID row = ID c \<and> Status row = Status c \<and> c_Metadata row = c_Metadata c"
proof -
  obtain w1 where d: "db_call w = (False, w1)"
    using assms(1) by (cases "db_call w") auto
  let ?row = "c\<lparr>UpdatedAt := clock w1\<rparr>"
  let ?T = "conversations w"
  have tbl: "conversations (snd (conversation_Update c w)) =
          (if ID c \<in> set (map ID ?T) then map (\<lambda>r. if ID r = ID c then ?row else r) ?T
           else ?T @ [?row])"
    using assms(2) d by (simp add: conversation_Update_def gorm_Save_def Let_def)
  have "?row \<in> set (conversations (snd (conversation_Update c w)))"
  proof (cases "ID c \<in> set (map ID ?T)")
    case True
    then obtain r where "r \<in> set ?T" "ID r = ID c" by auto
    then have "?row \<in> (\<lambda>r. if ID r = ID c then ?row else r) ` set ?T" by force
    with True tbl show ?thesis by simp
  next
    case False
    with tbl show ?thesis by simp
  qed
  then show ?thesis by (intro bexI[of _ ?row]) simp_all
qed

lemma processBotResponse_handoff:
  assumes "Process env ws (SenderID inb) (in_Content inb) w = (Inr resp, w1)"
    and "ShouldHandoff resp"
    and "processBotResponse env ws acct conv inb m w = ((res, conv'), w')"
  shows "Status conv' = StatusBotPaused"
    and "BotHandoffReason (c_Metadata conv') = HandoffReason resp"
    and "\<not> fst (db_call w1) \<and> ID conv \<noteq> uuid_Nil \<longrightarrow>
           (\<exists>row \<in> set (conversations w').
              ID row = ID conv \<and> Status row = StatusBotPaused \<and>
              BotHandoffReason (c_Metadata row) = HandoffReason resp)"
proof -
  let ?paused = "PauseBot conv (HandoffReason resp)"
  have conv': "conv' = snd (fst (conversation_Update ?paused w1))"
    using assms
    by (simp add: processBotResponse_def Let_def case_prod_beta split: option.splits if_splits)
  show "Status conv' = StatusBotPaused"
    unfolding conv' by (simp add: conversation_Update_row)
  show "BotHandoffReason (c_Metadata conv') = HandoffReason resp"
    unfolding conv' by (simp add: conversation_Update_row)
  have cs: "conversations w' = conversations (snd (conversation_Update ?paused w1))"
    using processBotResponse_conversations[of env ws acct conv inb m w] assms by simp
  show "\<not> fst (db_call w1) \<and> ID conv \<noteq> uuid_Nil \<longrightarrow>
           (\<exists>row \<in> set (conversations w').
              ID row = ID conv \<and> Status row = StatusBotPaused \<and>
              BotHandoffReason (c_Metadata row) = HandoffReason resp)"
  proof (intro impI)
    assume h: "\<not> fst (db_call w1) \<and> ID conv \<noteq> uuid_Nil"
    then obtain row where row: "row \<in> set (conversations (snd (conversation_Update ?paused w1)))"
      "ID row = ID ?paused" "Status row = Status ?paused" "c_Metadata row = c_Metadata ?paused"
      using conversation_Update_stored[of w1 ?paused] by auto
    from row(2-4) have "ID row = ID conv \<and> Status row = StatusBotPaused \<and>
              BotHandoffReason (c_Metadata row) = HandoffReason resp" by simp
    with row(1) cs show "\<exists>row \<in> set (conversations w').
              ID row = ID conv \<and> Status row = StatusBotPaused \<and>
              BotHandoffReason (c_Metadata row) = HandoffReason resp" by auto
  qed
qed

lemma send_reply_handoff_flag:
  assumes "send_reply env acct conv inb resp response result w = (Inr res, w')"
  shows "bp_ShouldHandoff res = bp_ShouldHandoff result"
  using assms
  by (auto simp add: send_reply_def Let_def
      split: prod.splits sum.splits option.splits if_splits)

lemma processBotResponse_handoff_source:
  assumes "processBotResponse env ws acct conv inb m w = ((Inr b, conv'), w')"
    and "bp_ShouldHandoff b"
  shows "\<exists>resp w1. Process env ws (SenderID inb) (in_Content inb) w = (Inr resp, w1) \<and>
           ShouldHandoff resp"
proof (cases "Process env ws (SenderID inb) (in_Content inb) w")
  case (Pair pr w1)
  show ?thesis
  proof (cases pr)
    case (Inl err)
    with Pair assms(1) show ?thesis by (simp add: processBotResponse_def)
  next
    case (Inr resp)
    have "ShouldHandoff resp"
    proof (rule ccontr)
      assume nh: "\<not> ShouldHandoff resp"
      with Pair Inr assms(1) have "\<not> bp_ShouldHandoff b"
        by (auto simp add: processBotResponse_def Let_def
            split: prod.splits option.splits if_splits dest: send_reply_handoff_flag)
      with assms(2) show False by simp
    qed
    with Pair Inr show ?thesis by simp
  qed
qed

lemma bot_calls_before_bot:
  assumes "findOrCreateParticipant ws acct inb w = (r1, wa)"
  shows "bot_calls wa = bot_calls w"
    and "findOrCreateConversation ws acct pid wa = (r2, wb) \<Longrightarrow> bot_calls wb = bot_calls w"
    and "findOrCreateConversation ws acct pid wa = (r2, wb) \<Longrightarrow>
         saveMessage cid inb wb = (r3, wc) \<Longrightarrow> bot_calls wc = bot_calls w"
    and "findOrCreateConversation ws acct pid wa = (r2, wb) \<Longrightarrow>
         saveMessage cid inb wb = (r3, wc) \<Longrightarrow>
         updateConversationLastMessage c inb wc = (r4, wd) \<Longrightarrow> bot_calls wd = bot_calls w"
proof -
  have wa: "wa = snd (findOrCreateParticipant ws acct inb w)" using assms by simp
  show a: "bot_calls wa = bot_calls w" unfolding wa by simp
  {
    assume s2: "findOrCreateConversation ws acct pid wa = (r2, wb)"
    then have wb: "wb = snd (findOrCreateConversation ws acct pid wa)" by simp
    show b: "bot_calls wb = bot_calls w" unfolding wb using a by simp
    {
      assume s3: "saveMessage cid inb wb = (r3, wc)"
      then have wc: "wc = snd (saveMessage cid inb wb)" by simp
      show c: "bot_calls wc = bot_calls w" unfolding wc using b by simp
      {
        assume s4: "updateConversationLastMessage c inb wc = (r4, wd)"
        then have wd: "wd = snd (updateConversationLastMessage c inb wc)" by simp
        show "bot_calls wd = bot_calls w" unfolding wd using c by simp
      }
    }
  }
qed

lemma bot_invoked_only_unpaused:
  assumes "bot_calls (snd (ProcessInbound env ws acct inb w)) \<noteq> bot_calls w"
  shows "\<exists>c. resolved_conversation ws acct inb w = Some c \<and> \<not> IsBotPaused c"
proof (cases "ProcessInbound env ws acct inb w")
  case (Pair r w')
  show ?thesis
  proof (cases r)
    case (Inl err)
    with Pair have "ProcessInbound env ws acct inb w = (Inl err, w')" by simp
    then have "bot_calls w' = bot_calls w"
      by (cases rule: ProcessInbound_InlE) (auto dest: bot_calls_before_bot)
    with assms Pair show ?thesis by simp
  next
    case (Inr res)
    with Pair have "ProcessInbound env ws acct inb w = (Inr res, w')" by simp
    then obtain p pc wa c cc wb m wc e c1 wd where
      s1: "findOrCreateParticipant ws acct inb w = (Inr (p, pc), wa)" and
      s2: "findOrCreateConversation ws acct (ID p) wa = (Inr (c, cc), wb)" and
      s3: "saveMessage (ID c) inb wb = (Inr m, wc)" and
      s4: "updateConversationLastMessage c inb wc = ((e, c1), wd)" and
      paused: "IsBotPaused c1 \<longrightarrow> w' = wd"
      by (elim ProcessInbound_InrE) blast
    have "bot_calls wd = bot_calls w"
      by (rule bot_calls_before_bot(4)[OF s1 s2 s3 s4])
    with assms Pair paused have np: "\<not> IsBotPaused c1" by auto
    have "Status c1 = Status c" by (rule updateConversationLastMessage_status[OF s4])
    with np have "\<not> IsBotPaused c" by (simp add: IsBotPaused_def)
    moreover have "resolved_conversation ws acct inb w = Some c"
      using s1 s2 by (simp add: resolved_conversation_def)
    ultimately show ?thesis by simp
  qed
qed

lemma conversation_Update_ID:
  "ID c \<noteq> uuid_Nil \<Longrightarrow> ID (snd (fst (conversation_Update c w))) = ID c"
  by (simp add: conversation_Update_def gorm_Save_def Let_def case_prod_beta)

lemma handoff_persisted:
  assumes nf: "faults w = []"
    and ids: "uuid_Nil \<notin> ID ` set (conversations w)"
    and run: "ProcessInbound env ws acct inb w = (Inr r, w')"
    and ho: "BotHandoff r"
  shows "\<exists>row \<in> set (conversations w').
           ID row = res_ConversationID r \<and> Status row = StatusBotPaused"
proof -
  from run obtain p pc wa c cc wb m wc e c1 wd where
    s1: "findOrCreateParticipant ws acct inb w = (Inr (p, pc), wa)" and
    s2: "findOrCreateConversation ws acct (ID p) wa = (Inr (c, cc), wb)" and
    s3: "saveMessage (ID c) inb wb = (Inr m, wc)" and
    s4: "updateConversationLastMessage c inb wc = ((e, c1), wd)" and
    r: "res_ConversationID r = ID c" and
    paused0: "IsBotPaused c1 \<longrightarrow>
       w' = wd \<and> \<not> BotReplied r \<and> \<not> BotHandoff r \<and> ResponseSent r = None" and
    bot0: "\<not> IsBotPaused c1 \<longrightarrow>
       (\<exists>br c2. processBotResponse env ws acct c1 inb m wd = ((br, c2), w') \<and>
          (case br of
             Inl _ \<Rightarrow> \<not> BotReplied r \<and> \<not> BotHandoff r \<and> ResponseSent r = None
           | Inr b \<Rightarrow> BotReplied r = bp_ShouldReply b \<and> BotHandoff r = bp_ShouldHandoff b \<and>
                      ResponseSent r = bp_ResponseSent b))"
    by (elim ProcessInbound_InrE) blast
  have wa: "wa = snd (findOrCreateParticipant ws acct inb w)" using s1 by simp
  have wb: "wb = snd (findOrCreateConversation ws acct (ID p) wa)" using s2 by simp
  have wc: "wc = snd (saveMessage (ID c) inb wb)" using s3 by simp
  have wd: "wd = snd (updateConversationLastMessage c inb wc)" using s4 by simp
  have nfa: "faults wa = []" using nf unfolding wa by simp
  have nfd: "faults wd = []" using nfa unfolding wd wc wb by simp
  have nn: "ID c \<noteq> uuid_Nil"
  proof (cases cc)
    case True
    then show ?thesis using findOrCreateConversation_current(2)[OF nfa s2] by simp
  next
    case False
    then have "c \<in> set (conversations wa)"
      using findOrCreateConversation_current(3)[OF nfa s2] by simp
    then have "c \<in> set (conversations w)" unfolding wa by simp
    then show ?thesis using ids by force
  qed
  have idc1: "ID c1 = ID c"
    using conversation_Update_ID[of "UpdateLastMessage c (in_Content inb) (Timestamp inb)" wc]
      s4 nn by (simp add: updateConversationLastMessage_def)
  from ho paused0 have np: "\<not> IsBotPaused c1" by blast
  with bot0 obtain br c2 where
    pb: "processBotResponse env ws acct c1 inb m wd = ((br, c2), w')" and
    fl: "case br of
             Inl _ \<Rightarrow> \<not> BotReplied r \<and> \<not> BotHandoff r \<and> ResponseSent r = None
           | Inr b \<Rightarrow> BotReplied r = bp_ShouldReply b \<and> BotHandoff r = bp_ShouldHandoff b \<and>
                      ResponseSent r = bp_ResponseSent b"
    by blast
  from fl ho obtain b where b: "br = Inr b" "bp_ShouldHandoff b"
    by (cases br) auto
  with pb have
    pbr: "processBotResponse env ws acct c1 inb m wd = ((Inr b, c2), w')" "bp_ShouldHandoff b"
    by simp_all
  then obtain resp w1 where
    pr: "Process env ws (SenderID inb) (in_Content inb) wd = (Inr resp, w1)" "ShouldHandoff resp"
    using processBotResponse_handoff_source by blast
  have "w1 = snd (Process env ws (SenderID inb) (in_Content inb) wd)" using pr(1) by simp
  then have "faults w1 = []" using nfd by simp
  then have "\<not> fst (db_call w1)" by (simp add: db_call_ok)
  with processBotResponse_handoff(3)[OF pr pbr(1)] nn idc1 r show ?thesis by auto
qed

section \<open>Sending the reply\<close>

lemma send_succeeded_refl: "\<not> send_succeeded env w w"
  by (simp add: send_succeeded_def)

lemma Channel_Send_success:
  assumes "Channel_Send env ch msg creds w = ((sr, err), w')"
  shows "err = None" and "Success sr \<longleftrightarrow> send_succeeded env w w'"
proof -
  show "err = None"
    using assms Send_fb_error_nil[of env msg creds]
      Send_mock_error_nil[of "clock w" "sentMessages w" msg creds]
    by (cases ch) (auto simp add: Channel_Send_def case_prod_beta)
  show "Success sr \<longleftrightarrow> send_succeeded env w w'"
  proof (cases ch)
    case MockChannel
    with assms show ?thesis
      by (auto simp add: Channel_Send_def Send_mock_def send_succeeded_def Let_def
          split: if_splits)
  next
    case FacebookChannel
    with assms have eq: "Send_fb env msg creds = ((sr, err), snd (Send_fb env msg creds))"
      and w': "w' = w\<lparr>http_log := http_log w @ snd (Send_fb env msg creds)\<rparr>"
      by (auto simp add: Channel_Send_def case_prod_beta prod_eq_iff)
    show ?thesis
      using eq unfolding w'
      by (cases rule: Send_fb_cases[of creds env msg]) (auto simp add: send_succeeded_def)
  qed
qed

lemma send_reply_result:
  assumes run: "send_reply env acct conv inb resp response result w = (Inr res, w')"
    and init: "\<not> bp_ShouldReply result" "bp_ResponseSent result = None"
  shows "bp_ShouldReply res \<longleftrightarrow> send_succeeded env w w'"
    and "bp_ShouldReply res \<longrightarrow> bp_ResponseSent res = Some response"
    and "\<not> bp_ShouldReply res \<longrightarrow> bp_ResponseSent res = None"
proof -
  define out where "out =
      \<lparr>ID = uuid_Nil, CreatedAt = 0, UpdatedAt = 0, DeletedAt = None,
       ConversationID = ID conv, Direction = DirectionOut, SenderType = SenderBot,
       m_SenderID = None, m_Content = Some (Content response),
       m_ContentType = ContentText, m_Attachments = [], m_ChannelMessageID = None,
       m_Metadata = \<lparr>MatchedRuleID = map_option ID (MatchedRule resp),
                     md_MatchedKeyword = MatchedKeyword resp,
                     md_Confidence = Confidence resp\<rparr>,
       IsRead = False, ReadAt = None\<rparr>"
  obtain e1 m1 w1 where mc: "message_Create out w = ((e1, m1), w1)"
    by (metis prod.exhaust)
  have w1: "w1 = snd (message_Create out w)" using mc by simp
  have f1: "sentMessages w1 = sentMessages w" "http_log w1 = http_log w"
    unfolding w1 by simp_all
  have unfold1: "send_reply env acct conv inb resp response result w =
      (case Registry_Get w1 (in_ChannelType inb) of
         Inl err \<Rightarrow> (Inl err, w1)
       | Inr ch \<Rightarrow>
           (case channelAccount_FindByID acct w1 of
              (Inl _, w2) \<Rightarrow> (Inr result, w2)
            | (Inr channelAcct, w2) \<Rightarrow>
                (case Channel_Send env ch response
                        [''page_access_token'' \<mapsto> PageAccessToken (Credentials channelAcct),
                         ''app_secret'' \<mapsto> AppSecret (Credentials channelAcct)] w2 of
                   ((sendResult, Some _), w3) \<Rightarrow> (Inr result, w3)
                 | ((sendResult, None), w3) \<Rightarrow>
                     if Success sendResult then
                       (if sr_ChannelMessageID sendResult \<noteq> '''' then
                          (Inr (result\<lparr>bp_ShouldReply := True,
                                       bp_ResponseSent := Some response\<rparr>),
                           snd (message_Update
                                  (m1\<lparr>m_ChannelMessageID :=
                                       Some (sr_ChannelMessageID sendResult)\<rparr>) w3))
                        else (Inr (result\<lparr>bp_ShouldReply := True,
                                          bp_ResponseSent := Some response\<rparr>), w3))
                     else (Inr result, w3))))"
    unfolding send_reply_def Let_def out_def[symmetric] mc
    by (simp add: case_prod_beta cong: sum.case_cong option.case_cong if_cong)
  have goal: "(bp_ShouldReply res \<longleftrightarrow> send_succeeded env w w') \<and>
             (bp_ShouldReply res \<longrightarrow> bp_ResponseSent res = Some response) \<and>
             (\<not> bp_ShouldReply res \<longrightarrow> bp_ResponseSent res = None)"
  proof (cases "Registry_Get w1 (in_ChannelType inb)")
    case (Inl err)
    with run unfold1 show ?thesis by simp
  next
    case ch: (Inr ch)
    obtain x w2 where fa: "channelAccount_FindByID acct w1 = (x, w2)"
      by (metis prod.exhaust)
    have w2: "w2 = snd (channelAccount_FindByID acct w1)" using fa by simp
    have f2: "sentMessages w2 = sentMessages w" "http_log w2 = http_log w"
      unfolding w2 using f1 by simp_all
    show ?thesis
    proof (cases x)
      case (Inl e2)
      with run unfold1 ch fa have "res = result" "w' = w2" by simp_all
      with init f2 show ?thesis by (simp add: send_succeeded_def)
    next
      case ca: (Inr channelAcct)
      define creds where "creds =
         [''page_access_token'' \<mapsto> PageAccessToken (Credentials channelAcct),
          ''app_secret'' \<mapsto> AppSecret (Credentials channelAcct)]"
      obtain sr err w3 where cs: "Channel_Send env ch response creds w2 = ((sr, err), w3)"
        by (metis prod.exhaust)
      have err: "err = None" and ok: "Success sr \<longleftrightarrow> send_succeeded env w2 w3"
        using Channel_Send_success[OF cs] by auto
      have "send_reply env acct conv inb resp response result w =
            (if Success sr then
               (if sr_ChannelMessageID sr \<noteq> '''' then
                  (Inr (result\<lparr>bp_ShouldReply := True, bp_ResponseSent := Some response\<rparr>),
                   snd (message_Update
                          (m1\<lparr>m_ChannelMessageID := Some (sr_ChannelMessageID sr)\<rparr>) w3))
                else (Inr (result\<lparr>bp_ShouldReply := True,
                                  bp_ResponseSent := Some response\<rparr>), w3))
             else (Inr result, w3))"
        using unfold1 ch fa ca cs[unfolded creds_def] err by simp
      note u2 = this[unfolded run]
      have f3: "sentMessages w' = sentMessages w3" "http_log w' = http_log w3"
        using u2 by (auto split: if_splits)
      have "send_succeeded env w w' = send_succeeded env w2 w3"
        using f2 f3 by (simp add: send_succeeded_def)
      with ok u2 init show ?thesis by (auto split: if_splits)
    qed
  qed
  from goal show "bp_ShouldReply res \<longleftrightarrow> send_succeeded env w w'"
    and "bp_ShouldReply res \<longrightarrow> bp_ResponseSent res = Some response"
    and "\<not> bp_ShouldReply res \<longrightarrow> bp_ResponseSent res = None"
    by auto
qed

lemma send_succeeded_cong:
  "sentMessages w1 = sentMessages w \<Longrightarrow> http_log w1 = http_log w \<Longrightarrow>
   send_succeeded env w1 w' = send_succeeded env w w'"
  by (simp add: send_succeeded_def)

lemma send_succeeded_same:
  "sentMessages w' = sentMessages w \<Longrightarrow> http_log w' = http_log w \<Longrightarrow>
   \<not> send_succeeded env w w'"
  by (simp add: send_succeeded_def)

lemma send_reply_Inl:
  assumes "send_reply env acct conv inb resp response result w = (Inl err, w')"
  shows "sentMessages w' = sentMessages w" and "http_log w' = http_log w"
proof -
  have "\<exists>out. w' = snd (message_Create out w)"
    using assms
    by (auto simp add: send_reply_def Let_def
        split: prod.splits sum.splits option.splits if_splits intro: exI snd_conv[symmetric])
      (metis snd_conv)
  then show "sentMessages w' = sentMessages w" and "http_log w' = http_log w"
    by auto
qed

lemma processBotResponse_reply:
  assumes run: "processBotResponse env ws acct conv inb m w = ((br, conv'), w')"
  shows "case br of
           Inl _ \<Rightarrow> \<not> send_succeeded env w w'
         | Inr b \<Rightarrow> (bp_ShouldReply b \<longleftrightarrow> send_succeeded env w w') \<and>
                    (bp_ShouldReply b \<longleftrightarrow> bp_ResponseSent b \<noteq> None)"
proof (cases "Process env ws (SenderID inb) (in_Content inb) w")
  case (Pair pr w1)
  have w1: "w1 = snd (Process env ws (SenderID inb) (in_Content inb) w)" using Pair by simp
  have f1: "sentMessages w1 = sentMessages w" "http_log w1 = http_log w"
    unfolding w1 by simp_all
  show ?thesis
  proof (cases pr)
    case (Inl err)
    with Pair run have "br = Inl err" "w' = w1" by (simp_all add: processBotResponse_def)
    with f1 show ?thesis by (simp add: send_succeeded_same)
  next
    case (Inr resp)
    define result where "result =
      \<lparr>bp_ShouldReply = False, bp_ShouldHandoff = ShouldHandoff resp, bp_ResponseSent = None\<rparr>"
    define conv1 where "conv1 =
      (if ShouldHandoff resp
       then snd (fst (conversation_Update (PauseBot conv (HandoffReason resp)) w1)) else conv)"
    define w2 where "w2 =
      (if ShouldHandoff resp
       then snd (conversation_Update (PauseBot conv (HandoffReason resp)) w1) else w1)"
    have f2: "sentMessages w2 = sentMessages w" "http_log w2 = http_log w"
      unfolding w2_def using f1 by simp_all
    have init: "\<not> bp_ShouldReply result" "bp_ResponseSent result = None"
      by (simp_all add: result_def)
    have eq: "processBotResponse env ws acct conv inb m w =
        (case Response resp of
           Some response \<Rightarrow>
             if ShouldReply resp then
               ((fst (send_reply env acct conv1 inb resp response result w2), conv1),
                snd (send_reply env acct conv1 inb resp response result w2))
             else ((Inr result, conv1), w2)
         | None \<Rightarrow> ((Inr result, conv1), w2))"
      by (simp add: processBotResponse_def Pair Inr Let_def case_prod_beta result_def
          conv1_def w2_def cong: option.case_cong if_cong)
    have quiet: "br = Inr result \<Longrightarrow> w' = w2 \<Longrightarrow> ?thesis"
      using init f2 by (simp add: send_succeeded_same)
    show ?thesis
    proof (cases "Response resp")
      case None
      with eq run have "br = Inr result" "w' = w2" by simp_all
      then show ?thesis by (rule quiet)
    next
      case (Some response)
      show ?thesis
      proof (cases "ShouldReply resp")
        case False
        with Some eq run have "br = Inr result" "w' = w2" by simp_all
        then show ?thesis by (rule quiet)
      next
        case True
        with Some eq run have
          sr: "send_reply env acct conv1 inb resp response result w2 = (br, w')"
          by (simp add: prod_eq_iff)
        have sc: "send_succeeded env w2 w' = send_succeeded env w w'"
          by (rule send_succeeded_cong[OF f2])
        show ?thesis
        proof (cases br)
          case (Inl err)
          with sr send_reply_Inl[of env acct conv1 inb resp response result w2 err w'] f2
          show ?thesis by (simp add: send_succeeded_same)
        next
          case (Inr b)
          with sr send_reply_result[of env acct conv1 inb resp response result w2 b w'] init sc
          show ?thesis by auto
        qed
      qed
    qed
  qed
qed

section \<open>What the steps before the bot leave unchanged\<close>

lemma saveMessage_bot_rows: "bot_rows (snd (saveMessage cid inb w)) = bot_rows w"
  by (simp add: saveMessage_def message_Create_def gorm_Create_def BeforeCreate_def
      bot_rows_def SenderBot_def SenderCustomer_def Let_def case_prod_beta
      split: option.splits)

lemma before_bot_sends:
  assumes "findOrCreateParticipant ws acct inb w = (r1, wa)"
    and "findOrCreateConversation ws acct pid wa = (r2, wb)"
    and "saveMessage cid inb wb = (r3, wc)"
    and "updateConversationLastMessage c inb wc = (r4, wd)"
  shows "sentMessages wd = sentMessages w" and "http_log wd = http_log w"
    and "bot_rows wd = bot_rows w"
proof -
  have wa: "wa = snd (findOrCreateParticipant ws acct inb w)" using assms by simp
  have wb: "wb = snd (findOrCreateConversation ws acct pid wa)" using assms by simp
  have wc: "wc = snd (saveMessage cid inb wb)" using assms by simp
  have wd: "wd = snd (updateConversationLastMessage c inb wc)" using assms by simp
  show "sentMessages wd = sentMessages w" unfolding wd wc wb wa by simp
  show "http_log wd = http_log w" unfolding wd wc wb wa by simp
  have "bot_rows wd = bot_rows wc" unfolding wd by (simp add: bot_rows_def)
  also have "\<dots> = bot_rows wb" unfolding wc by (rule saveMessage_bot_rows)
  also have "\<dots> = bot_rows w" unfolding wb wa by (simp add: bot_rows_def)
  finally show "bot_rows wd = bot_rows w" .
qed

lemma failed_delivery_bot_rows:
  assumes "ProcessInbound env ws acct inb w = (Inl err, w')"
  shows "bot_rows w' = bot_rows w"
  using assms
proof (cases rule: ProcessInbound_InlE)
  case participant
  then have "w' = snd (findOrCreateParticipant ws acct inb w)" by simp
  then show ?thesis by (simp add: bot_rows_def)
next
  case (conversation p pc wa)
  then have "w' = snd (findOrCreateConversation ws acct (ID p)
                         (snd (findOrCreateParticipant ws acct inb w)))" by simp
  then show ?thesis by (simp add: bot_rows_def)
next
  case (message p pc wa c cc wb)
  then have "w' = snd (saveMessage (ID c) inb wb)"
    and "wb = snd (findOrCreateConversation ws acct (ID p)
                     (snd (findOrCreateParticipant ws acct inb w)))" by simp_all
  then have "bot_rows w' = bot_rows wb" and "bot_rows wb = bot_rows w"
    by (simp_all add: saveMessage_bot_rows) (simp add: bot_rows_def)
  then show ?thesis by simp
qed

section \<open>The reply flag of a delivery\<close>

text \<open>
  C10. In every run of \<open>ProcessInbound\<close> that returns a result, \<open>BotReplied\<close> holds
  exactly when the send of the channel adapter succeeded during the run, and exactly when
  \<open>ResponseSent\<close> is set. When a row written by the bot has been added to the messages
  and no send succeeded (the adapter reported a failure, or the channel account was not
  found), the run still returns a result and no error, with \<open>BotReplied\<close> false and
  \<open>ResponseSent\<close> nil.
\<close>

theorem BotReplied_only_after_successful_send:
  assumes run: "ProcessInbound env ws acct inb w = (r, w')"
  shows "(\<forall>res. r = Inr res \<longrightarrow>
            (BotReplied res \<longleftrightarrow> send_succeeded env w w') \<and>
            (BotReplied res \<longleftrightarrow> ResponseSent res \<noteq> None)) \<and>
         (length (bot_rows w) < length (bot_rows w') \<and> \<not> send_succeeded env w w' \<longrightarrow>
            (\<exists>res. r = Inr res \<and> \<not> BotReplied res \<and> ResponseSent res = None))"
proof -
  have ok: "(BotReplied res \<longleftrightarrow> send_succeeded env w w') \<and>
            (BotReplied res \<longleftrightarrow> ResponseSent res \<noteq> None)" if r: "r = Inr res" for res
  proof -
    from run r have "ProcessInbound env ws acct inb w = (Inr res, w')" by simp
    then obtain p pc wa c cc wb m wc e c1 wd where
      s1: "findOrCreateParticipant ws acct inb w = (Inr (p, pc), wa)" and
      s2: "findOrCreateConversation ws acct (ID p) wa = (Inr (c, cc), wb)" and
      s3: "saveMessage (ID c) inb wb = (Inr m, wc)" and
      s4: "updateConversationLastMessage c inb wc = ((e, c1), wd)" and
      paused: "IsBotPaused c1 \<longrightarrow>
         w' = wd \<and> \<not> BotReplied res \<and> \<not> BotHandoff res \<and> ResponseSent res = None" and
      bot: "\<not> IsBotPaused c1 \<longrightarrow>
         (\<exists>br c2. processBotResponse env ws acct c1 inb m wd = ((br, c2), w') \<and>
            (case br of
               Inl _ \<Rightarrow> \<not> BotReplied res \<and> \<not> BotHandoff res \<and> ResponseSent res = None
             | Inr b \<Rightarrow> BotReplied res = bp_ShouldReply b \<and>
                        BotHandoff res = bp_ShouldHandoff b \<and>
                        ResponseSent res = bp_ResponseSent b))"
      by (elim ProcessInbound_InrE) blast
    have fd: "sentMessages wd = sentMessages w" "http_log wd = http_log w"
      using before_bot_sends(1,2)[OF s1 s2 s3 s4] by simp_all
    have sc: "send_succeeded env wd w' = send_succeeded env w w'"
      by (rule send_succeeded_cong[OF fd])
    show ?thesis
    proof (cases "IsBotPaused c1")
      case True
      with paused have "w' = wd" "\<not> BotReplied res" "ResponseSent res = None" by simp_all
      with fd show ?thesis by (simp add: send_succeeded_same)
    next
      case False
      with bot obtain br c2 where
        pb: "processBotResponse env ws acct c1 inb m wd = ((br, c2), w')" and
        fl: "case br of
               Inl _ \<Rightarrow> \<not> BotReplied res \<and> \<not> BotHandoff res \<and> ResponseSent res = None
             | Inr b \<Rightarrow> BotReplied res = bp_ShouldReply b \<and>
                        BotHandoff res = bp_ShouldHandoff b \<and>
                        ResponseSent res = bp_ResponseSent b"
        by blast
      from processBotResponse_reply[OF pb] fl sc show ?thesis
        by (cases br) auto
    qed
  qed
  have "\<exists>res. r = Inr res" if grew: "length (bot_rows w) < length (bot_rows w')"
  proof (cases r)
    case (Inl err)
    with run failed_delivery_bot_rows[of env ws acct inb w err w'] grew show ?thesis by simp
  next
    case (Inr res)
    then show ?thesis by simp
  qed
  with ok show ?thesis by blast
qed

section \<open>Invoking the bot and handing off\<close>

text \<open>
  C9. A run of \<open>ProcessInbound\<close> invokes the bot responder only when the conversation it
  resolved is not \<open>bot_paused\<close>. Whenever the responder returns a response with
  \<open>ShouldHandoff\<close>, \<open>processBotResponse\<close> leaves the conversation \<open>bot_paused\<close>
  with the reason of the response, and the stored row likewise when the update reaches the
  database (the persist is best-effort). A run without database failures that reports
  \<open>BotHandoff\<close> leaves the stored conversation of the result \<open>bot_paused\<close>.
\<close>

theorem bot_only_when_unpaused_and_handoff_pauses:
  "(bot_calls (snd (ProcessInbound env ws acct inb w)) \<noteq> bot_calls w \<longrightarrow>
      (\<exists>c. resolved_conversation ws acct inb w = Some c \<and> \<not> IsBotPaused c)) \<and>
   (\<forall>resp w1 res conv' w'.
      Process env ws (SenderID inb) (in_Content inb) w = (Inr resp, w1) \<and>
      ShouldHandoff resp \<and>
      processBotResponse env ws acct conv inb m w = ((res, conv'), w') \<longrightarrow>
        Status conv' = StatusBotPaused \<and>
        BotHandoffReason (c_Metadata conv') = HandoffReason resp \<and>
        (\<not> fst (db_call w1) \<and> ID conv \<noteq> uuid_Nil \<longrightarrow>
           (\<exists>row \<in> set (conversations w').
              ID row = ID conv \<and> Status row = StatusBotPaused \<and>
              BotHandoffReason (c_Metadata row) = HandoffReason resp))) \<and>
   (\<forall>r w'. faults w = [] \<and> uuid_Nil \<notin> ID ` set (conversations w) \<and>
      ProcessInbound env ws acct inb w = (Inr r, w') \<and> BotHandoff r \<longrightarrow>
        (\<exists>row \<in> set (conversations w').
           ID row = res_ConversationID r \<and> Status row = StatusBotPaused))"
proof (intro conjI allI impI)
  assume "bot_calls (snd (ProcessInbound env ws acct inb w)) \<noteq> bot_calls w"
  then show "\<exists>c. resolved_conversation ws acct inb w = Some c \<and> \<not> IsBotPaused c"
    by (rule bot_invoked_only_unpaused)
next
  fix resp w1 res conv' w'
  assume h: "Process env ws (SenderID inb) (in_Content inb) w = (Inr resp, w1) \<and>
      ShouldHandoff resp \<and>
      processBotResponse env ws acct conv inb m w = ((res, conv'), w')"
  then have p: "Process env ws (SenderID inb) (in_Content inb) w = (Inr resp, w1)"
    and s: "ShouldHandoff resp"
    and b: "processBotResponse env ws acct conv inb m w = ((res, conv'), w')" by simp_all
  show "Status conv' = StatusBotPaused"
    by (rule processBotResponse_handoff(1)[OF p s b])
  show "BotHandoffReason (c_Metadata conv') = HandoffReason resp"
    by (rule processBotResponse_handoff(2)[OF p s b])
  assume "\<not> fst (db_call w1) \<and> ID conv \<noteq> uuid_Nil"
  with processBotResponse_handoff(3)[OF p s b]
  show "\<exists>row \<in> set (conversations w').
              ID row = ID conv \<and> Status row = StatusBotPaused \<and>
              BotHandoffReason (c_Metadata row) = HandoffReason resp" by blast
next
  fix r w'
  assume "faults w = [] \<and> uuid_Nil \<notin> ID ` set (conversations w) \<and>
      ProcessInbound env ws acct inb w = (Inr r, w') \<and> BotHandoff r"
  then show "\<exists>row \<in> set (conversations w').
           ID row = res_ConversationID r \<and> Status row = StatusBotPaused"
    using handoff_persisted[of w env ws acct inb r w'] by blast
qed

section \<open>Redelivered webhooks\<close>

text \<open>
  C1. \<open>ProcessInbound\<close> does not look for a stored message with the provider's message
  identifier (\<open>FindByChannelMessageID\<close> is never called, and the column has no unique
  index): the same mock payload, normalised and delivered twice, is stored twice, and both
  rows carry the provider identifier \<open>m1\<close>.
\<close>

theorem redelivery_stores_second_row:
  "Normalize_mock 0 9 redelivered_payload = Inr redelivered_inbound \<and>
   (case ProcessInbound example_env 1 9 redelivered_inbound empty_world of (r1, w1) \<Rightarrow>
      (case ProcessInbound example_env 1 9 redelivered_inbound w1 of (r2, w2) \<Rightarrow>
         map_sum id MessageID r1 = Inr 103 \<and> map_sum id MessageID r2 = Inr 104 \<and>
         map m_ChannelMessageID (messages w1) = [Some ''m1''] \<and>
         map m_ChannelMessageID (messages w2) = [Some ''m1'', Some ''m1'']))"
proof -
  have "Normalize_mock 0 9 redelivered_payload = Inr redelivered_inbound"
    by (simp add: Normalize_mock_def redelivered_payload_def redelivered_inbound_def Let_def
        uuid_String_def nat_digits.simps)
  moreover have
   "(case ProcessInbound example_env 1 9 redelivered_inbound empty_world of (r1, w1) \<Rightarrow>
      (case ProcessInbound example_env 1 9 redelivered_inbound w1 of (r2, w2) \<Rightarrow>
         map_sum id MessageID r1 = Inr 103 \<and> map_sum id MessageID r2 = Inr 104 \<and>
         map m_ChannelMessageID (messages w1) = [Some ''m1''] \<and>
         map m_ChannelMessageID (messages w2) = [Some ''m1'', Some ''m1'']))"
    by code_simp
  ultimately show ?thesis by simp
qed

text \<open>The messages table after the second delivery, read off the world it returns.\<close>

theorem redelivery_stores_second_row_witness:
  "map m_ChannelMessageID
     (messages (snd (ProcessInbound example_env 1 9 redelivered_inbound
                       (snd (ProcessInbound example_env 1 9 redelivered_inbound empty_world)))))
   = [Some ''m1'', Some ''m1'']"
  using redelivery_stores_second_row by (simp add: case_prod_beta)

section \<open>Example runs\<close>


text \<open>A request for an agent, matched by the handoff rule without a message.\<close>

theorem bot_only_when_unpaused_and_handoff_pauses_witness:
  "(\<exists>c. resolved_conversation 1 9 (example_inbound ''mock'' ''m1'' ''I want an agent'')
           handoff_world = Some c \<and> \<not> IsBotPaused c) \<and>
   (\<exists>res conv' w'.
      processBotResponse example_env 1 9 example_conversation
        (example_inbound ''mock'' ''m1'' ''I want an agent'') example_message handoff_world
        = ((res, conv'), w') \<and>
      Status conv' = StatusBotPaused \<and>
      BotHandoffReason (c_Metadata conv') = ''Customer requested agent'' \<and>
      (\<exists>row. row \<in> set (conversations w') \<and> ID row = 50 \<and> Status row = StatusBotPaused)) \<and>
   (\<exists>r w' row.
      ProcessInbound example_env 1 9 (example_inbound ''mock'' ''m1'' ''I want an agent'')
        handoff_world = (Inr r, w') \<and>
      BotHandoff r \<and> row \<in> set (conversations w') \<and> ID row = res_ConversationID r \<and>
      Status row = StatusBotPaused)"
proof -
  define inb where "inb = example_inbound ''mock'' ''m1'' ''I want an agent''"
  define run where "run = ProcessInbound example_env 1 9 inb handoff_world"
  define bot where "bot = Process example_env 1 (SenderID inb) (in_Content inb) handoff_world"
  define pbr where "pbr = processBotResponse example_env 1 9 example_conversation inb
                            example_message handoff_world"
  note T = bot_only_when_unpaused_and_handoff_pauses
             [of example_env 1 9 inb handoff_world example_conversation example_message]
  have called: "bot_calls (snd (ProcessInbound example_env 1 9 inb handoff_world))
                  \<noteq> bot_calls handoff_world"
    unfolding inb_def by code_simp
  have a: "\<exists>c. resolved_conversation 1 9 inb handoff_world = Some c \<and> \<not> IsBotPaused c"
    using T called by blast
  have bot_ok: "case fst bot of Inl _ \<Rightarrow> False
                | Inr resp \<Rightarrow> ShouldHandoff resp \<and>
                    HandoffReason resp = ''Customer requested agent'' \<and>
                    \<not> fst (db_call (snd bot))"
    unfolding bot_def inb_def by code_simp
  then obtain resp where resp: "fst bot = Inr resp" "ShouldHandoff resp"
    "HandoffReason resp = ''Customer requested agent''" "\<not> fst (db_call (snd bot))"
    by (cases "fst bot") auto
  have p: "Process example_env 1 (SenderID inb) (in_Content inb) handoff_world
             = (Inr resp, snd bot)"
    using resp(1) unfolding bot_def by (simp add: prod_eq_iff)
  have q: "processBotResponse example_env 1 9 example_conversation inb example_message
             handoff_world = ((fst (fst pbr), snd (fst pbr)), snd pbr)"
    unfolding pbr_def by simp
  have nn: "ID example_conversation \<noteq> uuid_Nil" "ID example_conversation = 50"
    by (simp_all add: example_conversation_def uuid_Nil_def)
  from T p resp(2) q have
    "Status (snd (fst pbr)) = StatusBotPaused \<and>
     BotHandoffReason (c_Metadata (snd (fst pbr))) = HandoffReason resp \<and>
     (\<not> fst (db_call (snd bot)) \<and> ID example_conversation \<noteq> uuid_Nil \<longrightarrow>
        (\<exists>row \<in> set (conversations (snd pbr)).
           ID row = ID example_conversation \<and> Status row = StatusBotPaused \<and>
           BotHandoffReason (c_Metadata row) = HandoffReason resp))"
    by blast
  with resp(3,4) nn q have b:
    "\<exists>res conv' w'.
      processBotResponse example_env 1 9 example_conversation inb example_message handoff_world
        = ((res, conv'), w') \<and>
      Status conv' = StatusBotPaused \<and>
      BotHandoffReason (c_Metadata conv') = ''Customer requested agent'' \<and>
      (\<exists>row. row \<in> set (conversations w') \<and> ID row = 50 \<and> Status row = StatusBotPaused)"
    by (metis (no_types, lifting))
  have run_ok: "case fst run of Inl _ \<Rightarrow> False | Inr r \<Rightarrow> BotHandoff r"
    unfolding run_def inb_def by code_simp
  then obtain r where r: "fst run = Inr r" "BotHandoff r" by (cases "fst run") auto
  have rr: "ProcessInbound example_env 1 9 inb handoff_world = (Inr r, snd run)"
    using r(1) unfolding run_def by (simp add: prod_eq_iff)
  have nf: "faults handoff_world = []" by (simp add: handoff_world_def empty_world_def)
  have ids: "uuid_Nil \<notin> ID ` set (conversations handoff_world)"
    by (simp add: handoff_world_def empty_world_def)
  from T nf ids rr r(2) have
    "\<exists>row \<in> set (conversations (snd run)).
       ID row = res_ConversationID r \<and> Status row = StatusBotPaused"
    by blast
  with rr r(2) have c:
    "\<exists>r w' row. ProcessInbound example_env 1 9 inb handoff_world = (Inr r, w') \<and>
      BotHandoff r \<and> row \<in> set (conversations w') \<and> ID row = res_ConversationID r \<and>
      Status row = StatusBotPaused"
    by blast
  from a b c show ?thesis unfolding inb_def by blast
qed

text \<open>A greeting over Messenger: the reply is stored, the provider answers 500.\<close>

theorem BotReplied_only_after_successful_send_witness:
  "\<exists>res w'.
     ProcessInbound example_env 1 9 (example_inbound ''facebook'' ''m1'' ''hello'') greeting_world
       = (Inr res, w') \<and>
     length (bot_rows greeting_world) < length (bot_rows w') \<and>
     length (http_log w') = 1 \<and>
     \<not> BotReplied res \<and> ResponseSent res = None"
proof -
  define run where "run = ProcessInbound example_env 1 9
                            (example_inbound ''facebook'' ''m1'' ''hello'') greeting_world"
  have grew: "length (bot_rows greeting_world) < length (bot_rows (snd run))"
    unfolding run_def by code_simp
  have posted: "length (http_log (snd run)) = 1"
    unfolding run_def by code_simp
  have failed: "\<not> send_succeeded example_env greeting_world (snd run)"
    unfolding run_def by code_simp
  have "ProcessInbound example_env 1 9 (example_inbound ''facebook'' ''m1'' ''hello'')
          greeting_world = (fst run, snd run)"
    unfolding run_def by simp
  from BotReplied_only_after_successful_send[OF this] grew failed
  obtain res where "fst run = Inr res" "\<not> BotReplied res" "ResponseSent res = None"
    by blast
  with grew posted show ?thesis
    unfolding run_def by (metis prod.collapse)
qed

end
